theory Spec2Isabelle
  imports Main "HOL-Library.Sublist"
begin

section \<open>Go values\<close>

text \<open>
  A Go \<open>error\<close> is modelled by its message; a Go result \<open>(T, error)\<close> is the sum
  \<open>err + T\<close> with \<open>Inl\<close> for a non-nil error. Go strings are byte sequences, so
  \<open>length\<close> on a \<open>string\<close> is Go's \<open>len\<close>. Go's \<open>int\<close> is \<open>int\<close>; the only
  integers computed here come out of \<open>Atoi\<close>, which clamps to 64 bits itself.
\<close>

type_synonym err = string

subsection \<open>strings.Split with a one-byte separator\<close>

fun Split :: "string \<Rightarrow> char \<Rightarrow> string list" where
  "Split [] sep = [[]]"
| "Split (c # cs) sep =
     (if c = sep then [] # Split cs sep
      else (case Split cs sep of [] \<Rightarrow> [[c]] | p # ps \<Rightarrow> (c # p) # ps))"

subsection \<open>strconv.Atoi\<close>

text \<open>
  \<open>Atoi\<close> as the library computes it on a 64-bit platform, with what it returns beside
  an error: 0 on a syntax error, the nearest bound on a range error. The digit loop is
  that of \<open>ParseUint\<close> in base 10, which reports an overflow as soon as it meets it,
  before it has looked at the bytes that follow. (The short-string fast path of \<open>Atoi\<close>
  gives the same results.) An error is kept as its kind.
\<close>

definition is_digit :: "char \<Rightarrow> bool" where
  "is_digit ch = ((48::nat) \<le> of_char ch \<and> (of_char ch :: nat) \<le> 57)"

fun ParseUint :: "nat \<Rightarrow> string \<Rightarrow> nat \<times> err option" where
  "ParseUint n [] = (n, None)"
| "ParseUint n (ch # cs) =
     (if \<not> is_digit ch then (0, Some ''invalid syntax'')
      else if n \<ge> 1844674407370955162 then (18446744073709551615, Some ''value out of range'')
      else if n * 10 + ((of_char ch :: nat) - 48) > 18446744073709551615
        then (18446744073709551615, Some ''value out of range'')
      else ParseUint (n * 10 + ((of_char ch :: nat) - 48)) cs)"

definition Atoi :: "string \<Rightarrow> int \<times> err option" where
  "Atoi s =
     (case s of
        [] \<Rightarrow> (0, Some ''invalid syntax'')
      | s0 # rest \<Rightarrow>
          let neg = (s0 = CHR ''-'');
              body = (if s0 = CHR ''-'' \<or> s0 = CHR ''+'' then rest else s)
          in if body = [] then (0, Some ''invalid syntax'')
             else (case ParseUint 0 body of
                     (un, perr) \<Rightarrow>
                       if perr = Some ''invalid syntax'' then (0, perr)
                       else if \<not> neg \<and> un \<ge> 9223372036854775808
                         then (9223372036854775807, Some ''value out of range'')
                       else if neg \<and> un > 9223372036854775808
                         then (- 9223372036854775808, Some ''value out of range'')
                       else ((if neg then - int un else int un), None)))"

subsection \<open>fmt.Sprintf with the verb %d\<close>

definition digit_char :: "nat \<Rightarrow> char" where
  "digit_char d = ''0123456789'' ! d"

fun decimal :: "nat \<Rightarrow> string" where
  "decimal n = (if 10 \<le> n then decimal (n div 10) @ [digit_char (n mod 10)] else [digit_char n])"

definition string_of_int :: "int \<Rightarrow> string" where
  "string_of_int i = (if i < 0 then CHR ''-'' # decimal (nat (- i)) else decimal (nat i))"

subsection \<open>http.Header\<close>

text \<open>
  \<open>http.Header\<close> is \<open>map[string][]string\<close>, kept as an association list. \<open>Get\<close>
  gives the first value of the key and the empty string when there is none; \<open>Set\<close>
  replaces the values of the key by the single new one.
\<close>

type_synonym Header = "(string \<times> string list) list"

definition Header_Get :: "Header \<Rightarrow> string \<Rightarrow> string" where
  "Header_Get h k = (case map_of h k of None \<Rightarrow> [] | Some [] \<Rightarrow> [] | Some (v # vs) \<Rightarrow> v)"

definition Header_Set :: "Header \<Rightarrow> string \<Rightarrow> string \<Rightarrow> Header" where
  "Header_Set h k v = (k, [v]) # filter (\<lambda>p. fst p \<noteq> k) h"

text \<open>The part of an incoming \<open>*http.Request\<close> that the code reads beside its body.\<close>

record Request =
  Request_Header :: Header

text \<open>An outgoing request as \<open>http.NewRequest\<close> builds it.\<close>

record OutRequest =
  Out_Method :: string
  Out_URL :: string
  Out_Header :: Header
  Out_Body :: string

section \<open>Data model\<close>

text \<open>
  Field names are prefixed by their struct, since several structs share names such as
  \<open>Amount\<close>, \<open>Currency\<close> and \<open>Email\<close>. Times are instants on an integer clock,
  durations are nanoseconds.
\<close>

record config =
  config_port :: int
  config_env :: string
  config_db_dsn :: string
  config_stripe_secret :: string
  config_stripe_key :: string
  config_smtp_host :: string
  config_smtp_port :: int
  config_smtp_username :: string
  config_smtp_password :: string
  config_secretkey :: string
  config_frontend :: string

text \<open>The loggers of \<open>application\<close> appear as \<open>Log\<close> events; \<open>app_DB\<close> names the pool.\<close>

record application =
  app_config :: config
  app_version :: string
  app_DB :: nat

text \<open>
  \<open>stripePayload\<close> and \<open>jsonResponse\<close> are declared outside the files at hand; the
  fields are those the handlers read and write.
\<close>

record stripePayload =
  Payload_Currency :: string
  Payload_Amount :: string
  Payload_PaymentMethod :: string
  Payload_Email :: string
  Payload_LastFour :: string
  Payload_Plan :: string
  Payload_ProductID :: string
  Payload_FirstName :: string
  Payload_LastName :: string
  Payload_ExpiryMonth :: int
  Payload_ExpiryYear :: int

record jsonResponse =
  Resp_OK :: bool
  Resp_Message :: string
  Resp_Content :: string

record Invoice =
  Invoice_ID :: int
  Invoice_WidgetID :: int
  Invoice_Amount :: int
  Invoice_Product :: string
  Invoice_Quantity :: int
  Invoice_FirstName :: string
  Invoice_LastName :: string
  Invoice_Email :: string
  Invoice_CreatedAt :: int

text \<open>The order payload of the invoice microservice (its own \<open>Order\<close> struct).\<close>

record MicroOrder =
  MicroOrder_ID :: int
  MicroOrder_Quantity :: int
  MicroOrder_Amount :: int
  MicroOrder_Product :: string
  MicroOrder_FirstName :: string
  MicroOrder_LastName :: string
  MicroOrder_Email :: string
  MicroOrder_CreatedAt :: int

subsection \<open>Package card\<close>

record Card =
  Card_Secret :: string
  Card_Key :: string
  Card_Currency :: string

subsection \<open>Package models: the fields the handlers use\<close>

record Customer =
  Customer_FirstName :: string
  Customer_LastName :: string
  Customer_Email :: string

record Transaction =
  Txn_Amount :: int
  Txn_Currency :: string
  Txn_LastFour :: string
  Txn_ExpiryMonth :: int
  Txn_ExpiryYear :: int
  Txn_BankReturnCode :: string
  Txn_TransactionStatusID :: int
  Txn_PaymentIntent :: string
  Txn_PaymentMethod :: string

record Order =
  Order_WidgetID :: int
  Order_TransactionID :: int
  Order_CustomerID :: int
  Order_StatusID :: int
  Order_Quantity :: int
  Order_Amount :: int
  Order_CreatedAt :: int
  Order_UpdatedAt :: int

record User =
  User_ID :: int
  User_Email :: string
  User_Password :: string

text \<open>A widget row and an authentication token are opaque to the handlers.\<close>

datatype Widget = Widget string

datatype Token = Token string

subsection \<open>The payment library's values\<close>

datatype StripeCustomer = StripeCustomer string

record Subscription =
  Subscription_ID :: string

record Charge =
  Charge_ID :: string

record PaymentIntent =
  PaymentIntent_ID :: string
  PaymentIntent_LatestCharge :: "Charge option"

record PaymentMethodCard =
  PMCard_Last4 :: string
  PMCard_ExpMonth :: int
  PMCard_ExpYear :: int

record PaymentMethod =
  PaymentMethod_Card :: "PaymentMethodCard option"

record PaymentIntentParams =
  Params_Amount :: int
  Params_Currency :: string

text \<open>
  An error of the payment library is a \<open>*stripe.Error\<close> with a code, or any other
  error; the type assertion in \<open>CreatePaymentIntent\<close> tells them apart.
\<close>

datatype stripe_error = StripeError string string | OtherError string

section \<open>Effects of a handler\<close>

text \<open>
  A run is the list of its effects in program order: a line on the error log, a response
  written to the client, a call out of the code at hand (payment provider, database, mail,
  HTTP), a nil dereference that ends the run, or an assignment to state shared between
  requests (a package-level variable or a field of the application), named with the value
  assigned.
\<close>

text \<open>Every value that a handler turns into JSON.\<close>

datatype payload =
    PPaymentIntent "PaymentIntent option"
  | PJsonResponse jsonResponse
  | PInvoice Invoice
  | PWidget Widget
  | PStatus bool string
  | PToken bool string Token
  | PTransaction Transaction
  | PPage int int int int "Order list"
  | POrder Order
  | PUsers "User list"
  | PUser User

text \<open>
  The helpers \<open>badRequest\<close>, \<open>invalidCredentials\<close>, \<open>failedValidation\<close> and
  \<open>writeJSON\<close> are methods of \<open>application\<close> defined outside the files at hand; a
  response through one of them is recorded as the call with its arguments.
  \<open>Direct p out\<close> is the write a handler does itself: header
  \<open>Content-Type: application/json\<close>, then \<open>w.Write(out)\<close> with no status set (so 200),
  \<open>out\<close> being what marshalling \<open>p\<close> gave.
\<close>

datatype response =
    badRequest err
  | invalidCredentials
  | failedValidation "(string \<times> string) list"
  | writeJSON int payload
  | Direct payload string

datatype call =
    PaymentIntentNew string PaymentIntentParams
  | CardCharge Card string int
  | CreateCustomer Card string string
  | SubscribeToPlan Card "StripeCustomer option" string string string string
  | RetrievePaymentIntent Card string
  | GetPaymentMethod Card string
  | Refund Card string int
  | CancelSubscriptions Card string
  | InsertCustomer Customer
  | InsertTransaction Transaction
  | InsertOrder Order
  | GetWidget int
  | GetUserByEmail string
  | GetUserForToken string
  | GenerateToken int int string
  | InsertToken Token User
  | UpdatePasswordForUser User string
  | GetAllOrdersPaginated int int
  | GetAllSubscriptionsPaginated int int
  | GetOrderByID int
  | UpdateOrderStatus int int
  | GetAllUsers
  | GetOneUser int
  | DBEditUser User
  | AddUser User string
  | DBDeleteUser int
  | SendMail string string string string string
  | HttpDo OutRequest

datatype event =
    Log err
  | Respond response
  | Call call
  | Panic
  | Assign string string

section \<open>The world outside the handlers\<close>

text \<open>
  What the payment provider, the database and the libraries answer is not decided by the
  handlers: each answer is a parameter, a function of the arguments of the call. A Go
  function returning a pointer and an error is a pair of options, so that a nil pointer
  with a nil error stays possible.
\<close>

text \<open>
  The methods of \<open>cards.Card\<close> that the handlers call; the package
  (\<open>goEcommerce/internal/cards\<close>) is outside the files at hand, its \<open>Charge\<close> included.
  \<open>paymentintent_New\<close> is the payment library's function that package \<open>card\<close> calls; it
  reads the library's key, which is its first argument here.
\<close>

record cards_api =
  paymentintent_New :: "string \<Rightarrow> PaymentIntentParams \<Rightarrow> PaymentIntent option \<times> stripe_error option"
  Card_Charge :: "Card \<Rightarrow> string \<Rightarrow> int \<Rightarrow> PaymentIntent option \<times> string \<times> err option"
  Card_CreateCustomer :: "Card \<Rightarrow> string \<Rightarrow> string \<Rightarrow> StripeCustomer option \<times> string \<times> err option"
  Card_SubscribeToPlan ::
    "Card \<Rightarrow> StripeCustomer option \<Rightarrow> string \<Rightarrow> string \<Rightarrow> string \<Rightarrow> string \<Rightarrow> Subscription option \<times> err option"
  Card_RetrievePaymentIntent :: "Card \<Rightarrow> string \<Rightarrow> PaymentIntent option \<times> err option"
  Card_GetPaymentMethod :: "Card \<Rightarrow> string \<Rightarrow> PaymentMethod option \<times> err option"
  Card_Refund :: "Card \<Rightarrow> string \<Rightarrow> int \<Rightarrow> err option"
  Card_CancelSubscriptions :: "Card \<Rightarrow> string \<Rightarrow> err option"

record db_api =
  DB_InsertCustomer :: "Customer \<Rightarrow> err + int"
  DB_InsertTransaction :: "Transaction \<Rightarrow> err + int"
  DB_InsertOrder :: "Order \<Rightarrow> err + int"
  DB_GetWidget :: "int \<Rightarrow> err + Widget"
  DB_GetUserByEmail :: "string \<Rightarrow> err + User"
  DB_GetUserForToken :: "string \<Rightarrow> User option \<times> err option"
  DB_InsertToken :: "Token \<Rightarrow> User \<Rightarrow> err option"
  DB_UpdatePasswordForUser :: "User \<Rightarrow> string \<Rightarrow> err option"
  DB_GetAllOrdersPaginated :: "int \<Rightarrow> int \<Rightarrow> err + (Order list \<times> int \<times> int)"
  DB_GetAllSubscriptionsPaginated :: "int \<Rightarrow> int \<Rightarrow> err + (Order list \<times> int \<times> int)"
  DB_GetOrderByID :: "int \<Rightarrow> err + Order"
  DB_UpdateOrderStatus :: "int \<Rightarrow> int \<Rightarrow> err option"
  DB_GetAllUsers :: "err + User list"
  DB_GetOneUser :: "int \<Rightarrow> err + User"
  DB_EditUser :: "User \<Rightarrow> err option"
  DB_AddUser :: "User \<Rightarrow> string \<Rightarrow> err option"
  DB_DeleteUser :: "int \<Rightarrow> err option"

text \<open>
  Libraries and the helpers of the repository that lie outside the files at hand.
  \<open>validator_Valid\<close> and \<open>validator_Errors\<close> answer for a validator on which the
  listed checks \<open>(ok, key, message)\<close> were made; \<open>time_Now n\<close> is the clock at the
  \<open>n\<close>-th reading of a run.
\<close>

record lib_api =
  MarshalIndent :: "payload \<Rightarrow> string \<Rightarrow> string \<Rightarrow> err + string"
  url_Parse :: "string \<Rightarrow> err option"
  client_Do :: "OutRequest \<Rightarrow> err option"
  time_Now :: "nat \<Rightarrow> int"
  validator_Valid :: "(bool \<times> string \<times> string) list \<Rightarrow> bool"
  validator_Errors :: "(bool \<times> string \<times> string) list \<Rightarrow> (string \<times> string) list"
  passwordMatches :: "string \<Rightarrow> string \<Rightarrow> bool \<times> err option"
  models_GenerateToken :: "int \<Rightarrow> int \<Rightarrow> string \<Rightarrow> err + Token"
  ScopeAuthentication :: string
  bcrypt_GenerateFromPassword :: "string \<Rightarrow> int \<Rightarrow> err + string"
  encryption_Decrypt :: "string \<Rightarrow> string \<Rightarrow> err + string"
  GenerateTokenFromString :: "string \<Rightarrow> string \<Rightarrow> string"
  app_SendMail :: "string \<Rightarrow> string \<Rightarrow> string \<Rightarrow> string \<Rightarrow> string \<Rightarrow> err option"

record env =
  cards :: cards_api
  db :: db_api
  lib :: lib_api

text \<open>\<open>time.Hour\<close>, in nanoseconds.\<close>

definition time_Hour :: int where
  "time_Hour = 3600000000000"

section \<open>Package card: card error messages\<close>

text \<open>
  \<open>stripe.ErrorCode\<close> is a string type of the payment library; the two constants the
  switch names are the library's.
\<close>

type_synonym ErrorCode = string

definition ErrorCodeCardDeclined :: ErrorCode where
  "ErrorCodeCardDeclined = ''card_declined''"

definition ErrorCodeExpiredCard :: ErrorCode where
  "ErrorCodeExpiredCard = ''expired_card''"

definition cardErrorMessage :: "ErrorCode \<Rightarrow> string" where
  "cardErrorMessage code =
     (if code = ErrorCodeCardDeclined then ''Your card was declined''
      else if code = ErrorCodeExpiredCard then ''Your card is expired''
      else ''Your card was declined'')"

section \<open>Package card: payment intents\<close>

text \<open>
  \<open>CreatePaymentIntent\<close> first assigns \<open>stripe.Key\<close>, a package-level variable of the
  payment library, and then calls the library, which reads the key just assigned. It
  returns its three results and its effects. \<open>Charge\<close> only calls it.
\<close>

definition CreatePaymentIntent ::
  "cards_api \<Rightarrow> Card \<Rightarrow> string \<Rightarrow> int
     \<Rightarrow> (PaymentIntent option \<times> string \<times> stripe_error option) \<times> event list" where
  "CreatePaymentIntent api c currency amount =
     (let w = Assign ''stripe.Key'' (Card_Key c);
          params = \<lparr>Params_Amount = amount, Params_Currency = currency\<rparr>;
          (intent, err) = paymentintent_New api (Card_Key c) params;
          evs = [w, Call (PaymentIntentNew (Card_Key c) params)]
      in case err of
           Some e \<Rightarrow>
             (let msg = (case e of StripeError code m \<Rightarrow> cardErrorMessage code | OtherError m \<Rightarrow> [])
              in ((None, msg, Some e), evs))
         | None \<Rightarrow> ((intent, [], None), evs))"

definition Charge ::
  "cards_api \<Rightarrow> Card \<Rightarrow> string \<Rightarrow> int
     \<Rightarrow> (PaymentIntent option \<times> string \<times> stripe_error option) \<times> event list" where
  "Charge api c currency amount = CreatePaymentIntent api c currency amount"

section \<open>The API server: helpers\<close>

definition SaveCustomer :: "env \<Rightarrow> string \<Rightarrow> string \<Rightarrow> string \<Rightarrow> (err + int) \<times> event list" where
  "SaveCustomer e firstName lastName email =
     (let customer = \<lparr>Customer_FirstName = firstName, Customer_LastName = lastName,
                       Customer_Email = email\<rparr>
      in (case DB_InsertCustomer (db e) customer of Inl er \<Rightarrow> Inl er | Inr i \<Rightarrow> Inr i,
          [Call (InsertCustomer customer)]))"

definition SaveTransaction :: "env \<Rightarrow> Transaction \<Rightarrow> (err + int) \<times> event list" where
  "SaveTransaction e txn =
     (case DB_InsertTransaction (db e) txn of Inl er \<Rightarrow> Inl er | Inr i \<Rightarrow> Inr i,
      [Call (InsertTransaction txn)])"

definition SaveOrder :: "env \<Rightarrow> Order \<Rightarrow> (err + int) \<times> event list" where
  "SaveOrder e order =
     (case DB_InsertOrder (db e) order of Inl er \<Rightarrow> Inl er | Inr i \<Rightarrow> Inr i,
      [Call (InsertOrder order)])"

text \<open>
  \<open>http.NewRequest\<close> fails on a method that is no token (\<open>POST\<close> is one) and on a URL
  that does not parse; otherwise the request has the method, the URL and the body given
  and no header.
\<close>

definition http_NewRequest :: "env \<Rightarrow> string \<Rightarrow> string \<Rightarrow> string \<Rightarrow> err + OutRequest" where
  "http_NewRequest e method url body =
     (case url_Parse (lib e) url of
        Some er \<Rightarrow> Inl er
      | None \<Rightarrow> Inr \<lparr>Out_Method = method, Out_URL = url, Out_Header = [], Out_Body = body\<rparr>)"

definition callInvoiceMicro :: "env \<Rightarrow> application \<Rightarrow> Invoice \<Rightarrow> err option \<times> event list" where
  "callInvoiceMicro e app invoice =
     (let url = ''http://localhost:5000/invoice/create-and-send''
      in case MarshalIndent (lib e) (PInvoice invoice) [] [CHR 0x09] of
           Inl er \<Rightarrow> (Some er, [])
         | Inr out \<Rightarrow>
             (case http_NewRequest e ''POST'' url out of
                Inl er \<Rightarrow> (Some er, [])
              | Inr req0 \<Rightarrow>
                  (let req = req0\<lparr>Out_Header := Header_Set (Out_Header req0) ''Content-Type'' ''application/json''\<rparr>
                   in (client_Do (lib e) req, [Call (HttpDo req)]))))"

definition authenticateToken :: "env \<Rightarrow> Request \<Rightarrow> (User option \<times> err option) \<times> event list" where
  "authenticateToken e r =
     (let authorizationHeader = Header_Get (Request_Header r) ''Authorization''
      in if authorizationHeader = [] then ((None, Some ''no authorization header received''), [])
         else
           (let headerParts = Split authorizationHeader CHR '' ''
            in if length headerParts \<noteq> 2 \<or> headerParts ! 0 \<noteq> ''Bearer''
               then ((None, Some ''no authorization header received''), [])
               else
                 (let token = headerParts ! 1
                  in if length token \<noteq> 26
                     then ((None, Some ''authentication token wrong size''), [])
                     else
                       (case DB_GetUserForToken (db e) token of
                          (user, Some er) \<Rightarrow>
                            ((None, Some ''no matching user found''), [Call (GetUserForToken token)])
                        | (user, None) \<Rightarrow> ((user, None), [Call (GetUserForToken token)])))))"

section \<open>The API server: payment and subscription handlers\<close>

text \<open>
  A handler takes what decoding the request body gave (\<open>Inl\<close> when the decoder or
  \<open>readJSON\<close> failed) and returns the effects of the run. Errors of \<open>w.Write\<close> and of
  the response helpers only lead to a \<open>return\<close> where the handler returns anyway.
\<close>

definition app_card :: "application \<Rightarrow> string \<Rightarrow> Card" where
  "app_card app currency =
     \<lparr>Card_Secret = config_stripe_secret (app_config app),
      Card_Key = config_stripe_key (app_config app),
      Card_Currency = currency\<rparr>"

text \<open>
  \<open>GetPaymentIntent\<close> calls \<open>Charge\<close> of \<open>cards.Card\<close>, whose answer is a parameter of
  the world like that of every other method of the package.
\<close>

definition GetPaymentIntent :: "env \<Rightarrow> application \<Rightarrow> err + stripePayload \<Rightarrow> event list" where
  "GetPaymentIntent e app body =
     (case body of
        Inl er \<Rightarrow> [Log er]
      | Inr payload \<Rightarrow>
          (case Atoi (Payload_Amount payload) of
             (amount, Some er) \<Rightarrow> [Log er]
           | (amount, None) \<Rightarrow>
               (let card = app_card app (Payload_Currency payload);
                    c1 = Call (CardCharge card (Payload_Currency payload) amount)
                in case Card_Charge (cards e) card (Payload_Currency payload) amount of
                     (intent, msg, None) \<Rightarrow>
                       (case MarshalIndent (lib e) (PPaymentIntent intent) [] ''   '' of
                          Inl er \<Rightarrow> [c1, Log er]
                        | Inr out \<Rightarrow> [c1, Respond (Direct (PPaymentIntent intent) out)])
                   | (intent, msg, Some err) \<Rightarrow>
                       (let j = \<lparr>Resp_OK = False, Resp_Message = msg, Resp_Content = []\<rparr>
                        in case MarshalIndent (lib e) (PJsonResponse j) [] ''   '' of
                             Inl er \<Rightarrow> [c1, Log er, Respond (Direct (PJsonResponse j) [])]
                           | Inr out \<Rightarrow> [c1, Respond (Direct (PJsonResponse j) out)]))))"

definition GetWidgetByID :: "env \<Rightarrow> application \<Rightarrow> string \<Rightarrow> event list" where
  "GetWidgetByID e app ident =
     (let widgetID = fst (Atoi ident)
      in case DB_GetWidget (db e) widgetID of
           Inl er \<Rightarrow> [Call (GetWidget widgetID), Log er]
         | Inr widget \<Rightarrow>
             (case MarshalIndent (lib e) (PWidget widget) [] ''   '' of
                Inl er \<Rightarrow> [Call (GetWidget widgetID), Log er]
              | Inr out \<Rightarrow> [Call (GetWidget widgetID), Respond (Direct (PWidget widget) out)]))"

text \<open>
  \<open>CreateCustomerAndSubscribeToPlan\<close>, in the three parts of its body. The first
  (from \<open>okay := true\<close> to the end of the second \<open>if okay\<close>) creates the customer at the
  payment provider and subscribes it to the plan; it gives \<open>okay\<close>, \<open>txnMsg\<close> and
  \<open>subscription\<close>.
\<close>

definition Subscribe_charge ::
  "env \<Rightarrow> Card \<Rightarrow> stripePayload \<Rightarrow> (bool \<times> string \<times> Subscription option) \<times> event list" where
  "Subscribe_charge e c data =
     (let c1 = Call (CreateCustomer c (Payload_PaymentMethod data) (Payload_Email data))
      in case Card_CreateCustomer (cards e) c (Payload_PaymentMethod data) (Payload_Email data) of
           (stripeCustomer, msg, Some er) \<Rightarrow> ((False, msg, None), [c1, Log er])
         | (stripeCustomer, msg, None) \<Rightarrow>
             (let c2 = Call (SubscribeToPlan c stripeCustomer (Payload_Plan data)
                               (Payload_Email data) (Payload_LastFour data) [])
              in case Card_SubscribeToPlan (cards e) c stripeCustomer (Payload_Plan data)
                        (Payload_Email data) (Payload_LastFour data) [] of
                   (subscription, Some er) \<Rightarrow>
                     ((False, ''Error subscribing customer'', subscription), [c1, c2, Log er])
                 | (subscription, None) \<Rightarrow>
                     ((True, ''Transaction successful'', subscription), [c1, c2])))"

text \<open>
  The second part is the body of the third \<open>if okay\<close>: customer, transaction, order,
  invoice. The flag returned says that the handler executed \<open>return\<close> (or panicked on
  a nil \<open>subscription\<close>) inside it.
\<close>

definition Subscribe_persist ::
  "env \<Rightarrow> application \<Rightarrow> stripePayload \<Rightarrow> Subscription option \<Rightarrow> bool \<times> event list" where
  "Subscribe_persist e app data subscription =
     (let productID = fst (Atoi (Payload_ProductID data))
      in case SaveCustomer e (Payload_FirstName data) (Payload_LastName data) (Payload_Email data) of
           (Inl er, evs1) \<Rightarrow> (True, evs1 @ [Log er])
         | (Inr customerID, evs1) \<Rightarrow>
             (let amount = fst (Atoi (Payload_Amount data))
              in case subscription of
                   None \<Rightarrow> (True, evs1 @ [Panic])
                 | Some sub \<Rightarrow>
                     (let txn = \<lparr>Txn_Amount = amount, Txn_Currency = ''usd'',
                                 Txn_LastFour = Payload_LastFour data,
                                 Txn_ExpiryMonth = Payload_ExpiryMonth data,
                                 Txn_ExpiryYear = Payload_ExpiryYear data,
                                 Txn_BankReturnCode = [],
                                 Txn_TransactionStatusID = 2,
                                 Txn_PaymentIntent = Subscription_ID sub,
                                 Txn_PaymentMethod = Payload_PaymentMethod data\<rparr>
                      in case SaveTransaction e txn of
                           (Inl er, evs2) \<Rightarrow> (True, evs1 @ evs2 @ [Log er])
                         | (Inr txnID, evs2) \<Rightarrow>
                             (let order = \<lparr>Order_WidgetID = productID, Order_TransactionID = txnID,
                                           Order_CustomerID = customerID, Order_StatusID = 1,
                                           Order_Quantity = 1, Order_Amount = amount,
                                           Order_CreatedAt = time_Now (lib e) 0,
                                           Order_UpdatedAt = time_Now (lib e) 1\<rparr>
                              in case SaveOrder e order of
                                   (Inl er, evs3) \<Rightarrow> (True, evs1 @ evs2 @ evs3 @ [Log er])
                                 | (Inr orderID, evs3) \<Rightarrow>
                                     (let invoice = \<lparr>Invoice_ID = orderID, Invoice_WidgetID = 0,
                                                     Invoice_Amount = 2000,
                                                     Invoice_Product = ''Bronze Plan monthly subscription'',
                                                     Invoice_Quantity = Order_Quantity order,
                                                     Invoice_FirstName = Payload_FirstName data,
                                                     Invoice_LastName = Payload_LastName data,
                                                     Invoice_Email = Payload_Email data,
                                                     Invoice_CreatedAt = time_Now (lib e) 2\<rparr>
                                      in case callInvoiceMicro e app invoice of
                                           (Some er, evs4) \<Rightarrow> (False, evs1 @ evs2 @ evs3 @ evs4 @ [Log er])
                                         | (None, evs4) \<Rightarrow> (False, evs1 @ evs2 @ evs3 @ evs4))))))"

text \<open>The third part builds and writes the \<open>jsonResponse\<close>.\<close>

definition Subscribe_respond :: "env \<Rightarrow> bool \<Rightarrow> string \<Rightarrow> event list" where
  "Subscribe_respond e okay txnMsg =
     (let resp = \<lparr>Resp_OK = okay, Resp_Message = txnMsg, Resp_Content = []\<rparr>
      in case MarshalIndent (lib e) (PJsonResponse resp) [] ''  '' of
           Inl er \<Rightarrow> [Log er]
         | Inr out \<Rightarrow> [Respond (Direct (PJsonResponse resp) out)])"

definition CreateCustomerAndSubscribeToPlan ::
  "env \<Rightarrow> application \<Rightarrow> err + stripePayload \<Rightarrow> event list" where
  "CreateCustomerAndSubscribeToPlan e app body =
     (case body of
        Inl er \<Rightarrow> [Log er]
      | Inr data \<Rightarrow>
          (let checks = [(1 < length (Payload_FirstName data), ''first_name'',
                          ''must be at least 2 characters'')]
           in if \<not> validator_Valid (lib e) checks
              then [Respond (failedValidation (validator_Errors (lib e) checks))]
              else
                (let card = app_card app (Payload_Currency data)
                 in case Subscribe_charge e card data of
                      ((okay, txnMsg, subscription), evs0) \<Rightarrow>
                        if okay then
                          (case Subscribe_persist e app data subscription of
                             (True, evs) \<Rightarrow> evs0 @ evs
                           | (False, evs) \<Rightarrow> evs0 @ evs @ Subscribe_respond e okay txnMsg)
                        else evs0 @ Subscribe_respond e okay txnMsg)))"

section \<open>The API server: authentication handlers\<close>

text \<open>The body of \<open>CreateAuthToken\<close> decodes to an email and a password.\<close>

definition CreateAuthToken :: "env \<Rightarrow> application \<Rightarrow> err + string \<times> string \<Rightarrow> event list" where
  "CreateAuthToken e app body =
     (case body of
        Inl er \<Rightarrow> [Respond (badRequest er)]
      | Inr (email, password) \<Rightarrow>
          (case DB_GetUserByEmail (db e) email of
             Inl er \<Rightarrow> [Call (GetUserByEmail email), Respond invalidCredentials]
           | Inr user \<Rightarrow>
               (case passwordMatches (lib e) (User_Password user) password of
                  (validPassword, Some er) \<Rightarrow> [Call (GetUserByEmail email), Respond invalidCredentials]
                | (validPassword, None) \<Rightarrow>
                    if \<not> validPassword
                    then [Call (GetUserByEmail email), Respond invalidCredentials]
                    else
                      (let gen = Call (GenerateToken (User_ID user) (time_Hour * 24)
                                         (ScopeAuthentication (lib e)))
                       in case models_GenerateToken (lib e) (User_ID user) (time_Hour * 24)
                                 (ScopeAuthentication (lib e)) of
                            Inl er \<Rightarrow> [Call (GetUserByEmail email), gen, Respond (badRequest er)]
                          | Inr token \<Rightarrow>
                              (case DB_InsertToken (db e) token user of
                                 Some er \<Rightarrow>
                                   [Call (GetUserByEmail email), gen, Call (InsertToken token user),
                                    Respond (badRequest er)]
                               | None \<Rightarrow>
                                   [Call (GetUserByEmail email), gen, Call (InsertToken token user),
                                    Respond (writeJSON 200
                                      (PToken False (''token for '' @ email @ '' created'') token))])))))"

definition CheckAuthentication :: "env \<Rightarrow> application \<Rightarrow> Request \<Rightarrow> event list" where
  "CheckAuthentication e app r =
     (case authenticateToken e r of
        ((user, Some er), evs) \<Rightarrow> evs @ [Respond invalidCredentials]
      | ((None, None), evs) \<Rightarrow> evs @ [Panic]
      | ((Some u, None), evs) \<Rightarrow>
          evs @ [Respond (writeJSON 200 (PStatus False (''authenticated user '' @ User_Email u)))])"

section \<open>The API server: the other handlers\<close>

record txnData =
  TD_PaymentAmount :: int
  TD_PaymentCurrency :: string
  TD_FirstName :: string
  TD_LastName :: string
  TD_Email :: string
  TD_PaymentIntent :: string
  TD_PaymentMethod :: string
  TD_BankReturnCode :: string
  TD_ExpiryMonth :: int
  TD_ExpiryYear :: int
  TD_LastFour :: string

definition VirtualTerminalPaymentSucceeded ::
  "env \<Rightarrow> application \<Rightarrow> err + txnData \<Rightarrow> event list" where
  "VirtualTerminalPaymentSucceeded e app body =
     (case body of
        Inl er \<Rightarrow> [Respond (badRequest er)]
      | Inr td \<Rightarrow>
          (let card = app_card app [];
               c1 = Call (RetrievePaymentIntent card (TD_PaymentIntent td));
               c2 = Call (GetPaymentMethod card (TD_PaymentMethod td))
           in case Card_RetrievePaymentIntent (cards e) card (TD_PaymentIntent td) of
                (intent, Some er) \<Rightarrow> [c1, Respond (badRequest er)]
              | (intent, None) \<Rightarrow>
                  (case Card_GetPaymentMethod (cards e) card (TD_PaymentMethod td) of
                     (pm, Some er) \<Rightarrow> [c1, c2, Respond (badRequest er)]
                   | (None, None) \<Rightarrow> [c1, c2, Panic]
                   | (Some pm, None) \<Rightarrow>
                       (case PaymentMethod_Card pm of
                          None \<Rightarrow> [c1, c2, Panic]
                        | Some pmc \<Rightarrow>
                            (case intent of
                               None \<Rightarrow> [c1, c2, Panic]
                             | Some i \<Rightarrow>
                                 (case PaymentIntent_LatestCharge i of
                                    None \<Rightarrow> [c1, c2, Panic]
                                  | Some ch \<Rightarrow>
                                      (let txn = \<lparr>Txn_Amount = TD_PaymentAmount td,
                                                  Txn_Currency = TD_PaymentCurrency td,
                                                  Txn_LastFour = PMCard_Last4 pmc,
                                                  Txn_ExpiryMonth = PMCard_ExpMonth pmc,
                                                  Txn_ExpiryYear = PMCard_ExpYear pmc,
                                                  Txn_BankReturnCode = Charge_ID ch,
                                                  Txn_TransactionStatusID = 2,
                                                  Txn_PaymentIntent = TD_PaymentIntent td,
                                                  Txn_PaymentMethod = TD_PaymentMethod td\<rparr>
                                       in case SaveTransaction e txn of
                                            (Inl er, evs) \<Rightarrow> [c1, c2] @ evs @ [Respond (badRequest er)]
                                          | (Inr txnID, evs) \<Rightarrow>
                                              [c1, c2] @ evs
                                              @ [Respond (writeJSON 200 (PTransaction txn))])))))))"

definition SendPasswordResetEmail :: "env \<Rightarrow> application \<Rightarrow> err + string \<Rightarrow> event list" where
  "SendPasswordResetEmail e app body =
     (case body of
        Inl er \<Rightarrow> [Respond (badRequest er)]
      | Inr email \<Rightarrow>
          (case DB_GetUserByEmail (db e) email of
             Inl er \<Rightarrow>
               [Call (GetUserByEmail email),
                Respond (writeJSON 202 (PStatus True ''No matching email found on system''))]
           | Inr user \<Rightarrow>
               (let link = config_frontend (app_config app) @ ''/reset-password?email='' @ email;
                    signedLink = GenerateTokenFromString (lib e) (config_secretkey (app_config app)) link;
                    mail = Call (SendMail ''info@south.com'' email ''Password Reset Request''
                                   ''password-reset'' signedLink)
                in case app_SendMail (lib e) ''info@south.com'' email ''Password Reset Request''
                          ''password-reset'' signedLink of
                     Some er \<Rightarrow> [Call (GetUserByEmail email), mail, Log er, Respond (badRequest er)]
                   | None \<Rightarrow>
                       [Call (GetUserByEmail email), mail, Respond (writeJSON 201 (PStatus False []))])))"

definition ResetPassword :: "env \<Rightarrow> application \<Rightarrow> err + string \<times> string \<Rightarrow> event list" where
  "ResetPassword e app body =
     (case body of
        Inl er \<Rightarrow> [Respond (badRequest er)]
      | Inr (email, password) \<Rightarrow>
          (case encryption_Decrypt (lib e) (config_secretkey (app_config app)) email of
             Inl er \<Rightarrow> [Respond (badRequest er)]
           | Inr realEmail \<Rightarrow>
               (case DB_GetUserByEmail (db e) realEmail of
                  Inl er \<Rightarrow> [Call (GetUserByEmail realEmail), Respond (badRequest er)]
                | Inr user \<Rightarrow>
                    (case bcrypt_GenerateFromPassword (lib e) password 12 of
                       Inl er \<Rightarrow> [Call (GetUserByEmail realEmail), Respond (badRequest er)]
                     | Inr newHash \<Rightarrow>
                         (case DB_UpdatePasswordForUser (db e) user newHash of
                            Some er \<Rightarrow>
                              [Call (GetUserByEmail realEmail), Call (UpdatePasswordForUser user newHash),
                               Respond (badRequest er)]
                          | None \<Rightarrow>
                              [Call (GetUserByEmail realEmail), Call (UpdatePasswordForUser user newHash),
                               Respond (writeJSON 201 (PStatus False ''password changed''))])))))"

text \<open>The body of \<open>AllSales\<close> and \<open>AllSubscriptions\<close> decodes to a page size and a page.\<close>

definition AllSales :: "env \<Rightarrow> application \<Rightarrow> err + int \<times> int \<Rightarrow> event list" where
  "AllSales e app body =
     (case body of
        Inl er \<Rightarrow> [Respond (badRequest er)]
      | Inr (pageSize, currentPage) \<Rightarrow>
          (case DB_GetAllOrdersPaginated (db e) pageSize currentPage of
             Inl er \<Rightarrow> [Call (GetAllOrdersPaginated pageSize currentPage), Respond (badRequest er)]
           | Inr (allSales, lastPage, totalRecords) \<Rightarrow>
               [Call (GetAllOrdersPaginated pageSize currentPage),
                Respond (writeJSON 200 (PPage currentPage pageSize lastPage totalRecords allSales))]))"

definition AllSubscriptions :: "env \<Rightarrow> application \<Rightarrow> err + int \<times> int \<Rightarrow> event list" where
  "AllSubscriptions e app body =
     (case body of
        Inl er \<Rightarrow> [Respond (badRequest er)]
      | Inr (pageSize, currentPage) \<Rightarrow>
          (case DB_GetAllSubscriptionsPaginated (db e) pageSize currentPage of
             Inl er \<Rightarrow> [Call (GetAllSubscriptionsPaginated pageSize currentPage), Respond (badRequest er)]
           | Inr (allSales, lastPage, totalRecords) \<Rightarrow>
               [Call (GetAllSubscriptionsPaginated pageSize currentPage),
                Respond (writeJSON 200 (PPage currentPage pageSize lastPage totalRecords allSales))]))"

definition GetSale :: "env \<Rightarrow> application \<Rightarrow> string \<Rightarrow> event list" where
  "GetSale e app ident =
     (let orderID = fst (Atoi ident)
      in case DB_GetOrderByID (db e) orderID of
           Inl er \<Rightarrow> [Call (GetOrderByID orderID), Respond (badRequest er)]
         | Inr order \<Rightarrow> [Call (GetOrderByID orderID), Respond (writeJSON 200 (POrder order))])"

record chargeToRefund =
  CR_ID :: int
  CR_PaymentIntent :: string
  CR_Amount :: int
  CR_Currency :: string

definition RefundCharge :: "env \<Rightarrow> application \<Rightarrow> err + chargeToRefund \<Rightarrow> event list" where
  "RefundCharge e app body =
     (case body of
        Inl er \<Rightarrow> [Respond (badRequest er)]
      | Inr cr \<Rightarrow>
          (let card = app_card app (CR_Currency cr);
               c1 = Call (Refund card (CR_PaymentIntent cr) (CR_Amount cr));
               c2 = Call (UpdateOrderStatus (CR_ID cr) 2)
           in case Card_Refund (cards e) card (CR_PaymentIntent cr) (CR_Amount cr) of
                Some er \<Rightarrow> [c1, Respond (badRequest er)]
              | None \<Rightarrow>
                  (case DB_UpdateOrderStatus (db e) (CR_ID cr) 2 of
                     Some er \<Rightarrow>
                       [c1, c2, Respond (badRequest
                          ''the charge was refunded, but the database could not be updated'')]
                   | None \<Rightarrow> [c1, c2, Respond (writeJSON 200 (PStatus False ''Charge Refunded''))])))"

record subToCancel =
  SC_ID :: int
  SC_PaymentIntent :: string
  SC_Currency :: string

definition CancelSubscription :: "env \<Rightarrow> application \<Rightarrow> err + subToCancel \<Rightarrow> event list" where
  "CancelSubscription e app body =
     (case body of
        Inl er \<Rightarrow> [Respond (badRequest er)]
      | Inr sc \<Rightarrow>
          (let card = app_card app (SC_Currency sc);
               c1 = Call (CancelSubscriptions card (SC_PaymentIntent sc));
               c2 = Call (UpdateOrderStatus (SC_ID sc) 3)
           in case Card_CancelSubscriptions (cards e) card (SC_PaymentIntent sc) of
                Some er \<Rightarrow> [c1, Respond (badRequest er)]
              | None \<Rightarrow>
                  (case DB_UpdateOrderStatus (db e) (SC_ID sc) 3 of
                     Some er \<Rightarrow>
                       [c1, c2, Respond (badRequest
                          ''the subscription was cancelled, but the database could not be updated'')]
                   | None \<Rightarrow> [c1, c2, Respond (writeJSON 200 (PStatus False ''Subscription Cancelled''))])))"

definition AllUsers :: "env \<Rightarrow> application \<Rightarrow> event list" where
  "AllUsers e app =
     (case DB_GetAllUsers (db e) of
        Inl er \<Rightarrow> [Call GetAllUsers, Respond (badRequest er)]
      | Inr allUsers \<Rightarrow> [Call GetAllUsers, Respond (writeJSON 200 (PUsers allUsers))])"

definition OneUser :: "env \<Rightarrow> application \<Rightarrow> string \<Rightarrow> event list" where
  "OneUser e app ident =
     (let userID = fst (Atoi ident)
      in case DB_GetOneUser (db e) userID of
           Inl er \<Rightarrow> [Call (GetOneUser userID), Respond (badRequest er)]
         | Inr user \<Rightarrow> [Call (GetOneUser userID), Respond (writeJSON 200 (PUser user))])"

definition EditUser :: "env \<Rightarrow> application \<Rightarrow> string \<Rightarrow> err + User \<Rightarrow> event list" where
  "EditUser e app ident body =
     (let userID = fst (Atoi ident)
      in case body of
           Inl er \<Rightarrow> [Respond (badRequest er)]
         | Inr user \<Rightarrow>
             if userID > 0 then
               (case DB_EditUser (db e) user of
                  Some er \<Rightarrow> [Call (DBEditUser user), Respond (badRequest er)]
                | None \<Rightarrow>
                    if User_Password user \<noteq> [] then
                      (case bcrypt_GenerateFromPassword (lib e) (User_Password user) 12 of
                         Inl er \<Rightarrow> [Call (DBEditUser user), Respond (badRequest er)]
                       | Inr newHash \<Rightarrow>
                           (case DB_UpdatePasswordForUser (db e) user newHash of
                              Some er \<Rightarrow>
                                [Call (DBEditUser user), Call (UpdatePasswordForUser user newHash),
                                 Respond (badRequest er)]
                            | None \<Rightarrow>
                                [Call (DBEditUser user), Call (UpdatePasswordForUser user newHash),
                                 Respond (writeJSON 200 (PStatus False []))]))
                    else [Call (DBEditUser user), Respond (writeJSON 200 (PStatus False []))])
             else
               (case bcrypt_GenerateFromPassword (lib e) (User_Password user) 12 of
                  Inl er \<Rightarrow> [Respond (badRequest er)]
                | Inr newHash \<Rightarrow>
                    (case DB_AddUser (db e) user newHash of
                       Some er \<Rightarrow> [Call (AddUser user newHash), Respond (badRequest er)]
                     | None \<Rightarrow>
                         [Call (AddUser user newHash), Respond (writeJSON 200 (PStatus False []))])))"

definition DeleteUser :: "env \<Rightarrow> application \<Rightarrow> string \<Rightarrow> event list" where
  "DeleteUser e app ident =
     (let userID = fst (Atoi ident)
      in case DB_DeleteUser (db e) userID of
           Some er \<Rightarrow> [Call (DBDeleteUser userID), Respond (badRequest er)]
         | None \<Rightarrow> [Call (DBDeleteUser userID), Respond (writeJSON 200 (PStatus False []))])"

section \<open>The invoice microservice\<close>

definition CreateAndSendInvoice :: "err + MicroOrder \<Rightarrow> event list" where
  "CreateAndSendInvoice body =
     (case body of
        Inl er \<Rightarrow> [Respond (badRequest er)]
      | Inr order \<Rightarrow>
          [Respond (writeJSON 201 (PStatus False
             (''Invoice '' @ string_of_int (MicroOrder_ID order) @ ''.pdf created and sent to ''
              @ MicroOrder_Email order)))])"

section \<open>One request to any handler\<close>

datatype request =
    ReqGetPaymentIntent "err + stripePayload"
  | ReqGetWidgetByID string
  | ReqCreateCustomerAndSubscribeToPlan "err + stripePayload"
  | ReqCreateAuthToken "err + string \<times> string"
  | ReqCheckAuthentication Request
  | ReqVirtualTerminalPaymentSucceeded "err + txnData"
  | ReqSendPasswordResetEmail "err + string"
  | ReqResetPassword "err + string \<times> string"
  | ReqAllSales "err + int \<times> int"
  | ReqAllSubscriptions "err + int \<times> int"
  | ReqGetSale string
  | ReqRefundCharge "err + chargeToRefund"
  | ReqCancelSubscription "err + subToCancel"
  | ReqAllUsers
  | ReqOneUser string
  | ReqEditUser string "err + User"
  | ReqDeleteUser string
  | ReqCreateAndSendInvoice "err + MicroOrder"

fun handle :: "env \<Rightarrow> application \<Rightarrow> request \<Rightarrow> event list" where
  "handle e app (ReqGetPaymentIntent body) = GetPaymentIntent e app body"
| "handle e app (ReqGetWidgetByID ident) = GetWidgetByID e app ident"
| "handle e app (ReqCreateCustomerAndSubscribeToPlan body) = CreateCustomerAndSubscribeToPlan e app body"
| "handle e app (ReqCreateAuthToken body) = CreateAuthToken e app body"
| "handle e app (ReqCheckAuthentication r) = CheckAuthentication e app r"
| "handle e app (ReqVirtualTerminalPaymentSucceeded body) = VirtualTerminalPaymentSucceeded e app body"
| "handle e app (ReqSendPasswordResetEmail body) = SendPasswordResetEmail e app body"
| "handle e app (ReqResetPassword body) = ResetPassword e app body"
| "handle e app (ReqAllSales body) = AllSales e app body"
| "handle e app (ReqAllSubscriptions body) = AllSubscriptions e app body"
| "handle e app (ReqGetSale ident) = GetSale e app ident"
| "handle e app (ReqRefundCharge body) = RefundCharge e app body"
| "handle e app (ReqCancelSubscription body) = CancelSubscription e app body"
| "handle e app ReqAllUsers = AllUsers e app"
| "handle e app (ReqOneUser ident) = OneUser e app ident"
| "handle e app (ReqEditUser ident body) = EditUser e app ident body"
| "handle e app (ReqDeleteUser ident) = DeleteUser e app ident"
| "handle e app (ReqCreateAndSendInvoice body) = CreateAndSendInvoice body"

section \<open>Observing a run\<close>

fun calls :: "event list \<Rightarrow> call list" where
  "calls [] = []"
| "calls (Call c # es) = c # calls es"
| "calls (Log er # es) = calls es"
| "calls (Respond r # es) = calls es"
| "calls (Panic # es) = calls es"
| "calls (Assign v x # es) = calls es"

fun responses :: "event list \<Rightarrow> response list" where
  "responses [] = []"
| "responses (Respond r # es) = r # responses es"
| "responses (Log er # es) = responses es"
| "responses (Call c # es) = responses es"
| "responses (Panic # es) = responses es"
| "responses (Assign v x # es) = responses es"

fun logged :: "event list \<Rightarrow> err list" where
  "logged [] = []"
| "logged (Log er # es) = er # logged es"
| "logged (Respond r # es) = logged es"
| "logged (Call c # es) = logged es"
| "logged (Panic # es) = logged es"
| "logged (Assign v x # es) = logged es"

text \<open>The assignments to state shared between requests in a run: variable and value.\<close>

fun assigned :: "event list \<Rightarrow> (string \<times> string) list" where
  "assigned [] = []"
| "assigned (Assign v x # es) = (v, x) # assigned es"
| "assigned (Log er # es) = assigned es"
| "assigned (Respond r # es) = assigned es"
| "assigned (Call c # es) = assigned es"
| "assigned (Panic # es) = assigned es"

text \<open>Whether the world answers a call without an error.\<close>

fun succeeded :: "env \<Rightarrow> call \<Rightarrow> bool" where
  "succeeded e (PaymentIntentNew k p) = (snd (paymentintent_New (cards e) k p) = None)"
| "succeeded e (CardCharge c cur a) = (snd (snd (Card_Charge (cards e) c cur a)) = None)"
| "succeeded e (CreateCustomer c pm em) = (snd (snd (Card_CreateCustomer (cards e) c pm em)) = None)"
| "succeeded e (SubscribeToPlan c cu pl em lf x) =
     (snd (Card_SubscribeToPlan (cards e) c cu pl em lf x) = None)"
| "succeeded e (RetrievePaymentIntent c i) = (snd (Card_RetrievePaymentIntent (cards e) c i) = None)"
| "succeeded e (GetPaymentMethod c m) = (snd (Card_GetPaymentMethod (cards e) c m) = None)"
| "succeeded e (Refund c i a) = (Card_Refund (cards e) c i a = None)"
| "succeeded e (CancelSubscriptions c i) = (Card_CancelSubscriptions (cards e) c i = None)"
| "succeeded e (InsertCustomer cu) = (\<not> isl (DB_InsertCustomer (db e) cu))"
| "succeeded e (InsertTransaction t) = (\<not> isl (DB_InsertTransaction (db e) t))"
| "succeeded e (InsertOrder ord) = (\<not> isl (DB_InsertOrder (db e) ord))"
| "succeeded e (GetWidget i) = (\<not> isl (DB_GetWidget (db e) i))"
| "succeeded e (GetUserByEmail em) = (\<not> isl (DB_GetUserByEmail (db e) em))"
| "succeeded e (GetUserForToken t) = (snd (DB_GetUserForToken (db e) t) = None)"
| "succeeded e (GenerateToken u ttl sc) = (\<not> isl (models_GenerateToken (lib e) u ttl sc))"
| "succeeded e (InsertToken t u) = (DB_InsertToken (db e) t u = None)"
| "succeeded e (UpdatePasswordForUser u h) = (DB_UpdatePasswordForUser (db e) u h = None)"
| "succeeded e (GetAllOrdersPaginated ps cp) = (\<not> isl (DB_GetAllOrdersPaginated (db e) ps cp))"
| "succeeded e (GetAllSubscriptionsPaginated ps cp) =
     (\<not> isl (DB_GetAllSubscriptionsPaginated (db e) ps cp))"
| "succeeded e (GetOrderByID i) = (\<not> isl (DB_GetOrderByID (db e) i))"
| "succeeded e (UpdateOrderStatus i st) = (DB_UpdateOrderStatus (db e) i st = None)"
| "succeeded e GetAllUsers = (\<not> isl (DB_GetAllUsers (db e)))"
| "succeeded e (GetOneUser i) = (\<not> isl (DB_GetOneUser (db e) i))"
| "succeeded e (DBEditUser u) = (DB_EditUser (db e) u = None)"
| "succeeded e (AddUser u h) = (DB_AddUser (db e) u h = None)"
| "succeeded e (DBDeleteUser i) = (DB_DeleteUser (db e) i = None)"
| "succeeded e (SendMail f t su tm d) = (app_SendMail (lib e) f t su tm d = None)"
| "succeeded e (HttpDo req) = (client_Do (lib e) req = None)"

subsection \<open>The steps of a subscription\<close>

datatype step =
    StepCreateCustomer
  | StepSubscribeToPlan
  | StepSaveCustomer
  | StepSaveTransaction
  | StepSaveOrder
  | StepInvoice

fun step_of :: "call \<Rightarrow> step option" where
  "step_of (CreateCustomer c pm em) = Some StepCreateCustomer"
| "step_of (SubscribeToPlan c cu pl em lf x) = Some StepSubscribeToPlan"
| "step_of (InsertCustomer cu) = Some StepSaveCustomer"
| "step_of (InsertTransaction t) = Some StepSaveTransaction"
| "step_of (InsertOrder ord) = Some StepSaveOrder"
| "step_of (HttpDo req) = Some StepInvoice"
| "step_of c = None"

definition subscription_sequence :: "step list" where
  "subscription_sequence =
     [StepCreateCustomer, StepSubscribeToPlan, StepSaveCustomer, StepSaveTransaction,
      StepSaveOrder, StepInvoice]"

text \<open>
  A world that leaves a subscription nothing to stop at but a failed call: the payment
  provider gives a subscription whenever it gives no error, an invoice always marshals,
  and the URL of the invoice microservice parses.
\<close>

definition answers_in_full :: "env \<Rightarrow> bool" where
  "answers_in_full e =
     ((\<forall>c cu pl em lf x.
         snd (Card_SubscribeToPlan (cards e) c cu pl em lf x) = None
         \<longrightarrow> fst (Card_SubscribeToPlan (cards e) c cu pl em lf x) \<noteq> None)
      \<and> (\<forall>invoice. \<not> isl (MarshalIndent (lib e) (PInvoice invoice) [] [CHR 0x09]))
      \<and> url_Parse (lib e) ''http://localhost:5000/invoice/create-and-send'' = None)"

text \<open>The three database writes of a subscription.\<close>

fun persistence :: "call \<Rightarrow> bool" where
  "persistence (InsertCustomer cu) = True"
| "persistence (InsertTransaction t) = True"
| "persistence (InsertOrder ord) = True"
| "persistence c = False"

text \<open>
  The calls by which the server undoes a charge or a row: refunding, cancelling a
  subscription, changing the status of an order, deleting a row (the only deletion the
  database interface offers is that of a user).
\<close>

fun compensating :: "call \<Rightarrow> bool" where
  "compensating (Refund c i a) = True"
| "compensating (CancelSubscriptions c i) = True"
| "compensating (UpdateOrderStatus i st) = True"
| "compensating (DBDeleteUser i) = True"
| "compensating c = False"

subsection \<open>The values a subscription builds\<close>

text \<open>
  Names for the validator checks, the two calls to the payment provider, the rows and the
  invoice that \<open>CreateCustomerAndSubscribeToPlan\<close> builds from its payload, and for the
  request \<open>callInvoiceMicro\<close> sends with a marshalled body.
\<close>

definition sub_checks :: "stripePayload \<Rightarrow> (bool \<times> string \<times> string) list" where
  "sub_checks data =
     [(1 < length (Payload_FirstName data), ''first_name'', ''must be at least 2 characters'')]"

definition sub_c1 :: "application \<Rightarrow> stripePayload \<Rightarrow> call" where
  "sub_c1 app data =
     CreateCustomer (app_card app (Payload_Currency data)) (Payload_PaymentMethod data)
       (Payload_Email data)"

definition sub_c2 :: "application \<Rightarrow> stripePayload \<Rightarrow> StripeCustomer option \<Rightarrow> call" where
  "sub_c2 app data cu =
     SubscribeToPlan (app_card app (Payload_Currency data)) cu (Payload_Plan data)
       (Payload_Email data) (Payload_LastFour data) []"

definition sub_customer :: "stripePayload \<Rightarrow> Customer" where
  "sub_customer data =
     \<lparr>Customer_FirstName = Payload_FirstName data, Customer_LastName = Payload_LastName data,
      Customer_Email = Payload_Email data\<rparr>"

definition sub_txn :: "stripePayload \<Rightarrow> Subscription \<Rightarrow> Transaction" where
  "sub_txn data sub =
     \<lparr>Txn_Amount = fst (Atoi (Payload_Amount data)), Txn_Currency = ''usd'',
      Txn_LastFour = Payload_LastFour data, Txn_ExpiryMonth = Payload_ExpiryMonth data,
      Txn_ExpiryYear = Payload_ExpiryYear data, Txn_BankReturnCode = [],
      Txn_TransactionStatusID = 2, Txn_PaymentIntent = Subscription_ID sub,
      Txn_PaymentMethod = Payload_PaymentMethod data\<rparr>"

definition sub_order :: "env \<Rightarrow> stripePayload \<Rightarrow> int \<Rightarrow> int \<Rightarrow> Order" where
  "sub_order e data customerID txnID =
     \<lparr>Order_WidgetID = fst (Atoi (Payload_ProductID data)), Order_TransactionID = txnID,
      Order_CustomerID = customerID, Order_StatusID = 1, Order_Quantity = 1,
      Order_Amount = fst (Atoi (Payload_Amount data)),
      Order_CreatedAt = time_Now (lib e) 0, Order_UpdatedAt = time_Now (lib e) 1\<rparr>"

definition sub_invoice :: "env \<Rightarrow> stripePayload \<Rightarrow> int \<Rightarrow> Invoice" where
  "sub_invoice e data orderID =
     \<lparr>Invoice_ID = orderID, Invoice_WidgetID = 0, Invoice_Amount = 2000,
      Invoice_Product = ''Bronze Plan monthly subscription'', Invoice_Quantity = 1,
      Invoice_FirstName = Payload_FirstName data, Invoice_LastName = Payload_LastName data,
      Invoice_Email = Payload_Email data, Invoice_CreatedAt = time_Now (lib e) 2\<rparr>"

definition sub_request :: "string \<Rightarrow> OutRequest" where
  "sub_request out =
     \<lparr>Out_Method = ''POST'', Out_URL = ''http://localhost:5000/invoice/create-and-send'',
      Out_Header = [(''Content-Type'', [''application/json''])], Out_Body = out\<rparr>"

subsection \<open>What follows a failed database write\<close>

text \<open>The events of a run after the first occurrence of an event.\<close>

fun after :: "event \<Rightarrow> event list \<Rightarrow> event list" where
  "after ev [] = []"
| "after ev (x # xs) = (if x = ev then xs else after ev xs)"

text \<open>The error with which the database answers one of the three writes, if it does.\<close>

fun failure :: "env \<Rightarrow> call \<Rightarrow> err option" where
  "failure e (InsertCustomer cu) =
     (case DB_InsertCustomer (db e) cu of Inl er \<Rightarrow> Some er | Inr i \<Rightarrow> None)"
| "failure e (InsertTransaction t) =
     (case DB_InsertTransaction (db e) t of Inl er \<Rightarrow> Some er | Inr i \<Rightarrow> None)"
| "failure e (InsertOrder ord) =
     (case DB_InsertOrder (db e) ord of Inl er \<Rightarrow> Some er | Inr i \<Rightarrow> None)"
| "failure e c = None"

subsection \<open>Bearer tokens and granted tokens\<close>

text \<open>
  The four conditions on the value of the \<open>Authorization\<close> header: present, two parts
  when split on spaces, the first \<open>Bearer\<close>, the second 26 bytes long.
\<close>

definition bearer_header :: "string \<Rightarrow> bool" where
  "bearer_header h =
     (h \<noteq> [] \<and> length (Split h CHR '' '') = 2 \<and> Split h CHR '' '' ! 0 = ''Bearer''
      \<and> length (Split h CHR '' '' ! 1) = 26)"

text \<open>A run grants a token when it answers 200 with a token payload whose error flag is off.\<close>

fun grants :: "response \<Rightarrow> bool" where
  "grants (writeJSON st (PToken er m t)) = (st = 200 \<and> \<not> er)"
| "grants r = False"

definition token_granted :: "event list \<Rightarrow> bool" where
  "token_granted tr = list_ex grants (responses tr)"

text \<open>The hash stored for the email matches the password: the user is found and
  \<open>passwordMatches\<close> answers true without an error.\<close>

definition stored_hash_matches :: "env \<Rightarrow> string \<Rightarrow> string \<Rightarrow> bool" where
  "stored_hash_matches e email password =
     (case DB_GetUserByEmail (db e) email of
        Inl er \<Rightarrow> False
      | Inr user \<Rightarrow> passwordMatches (lib e) (User_Password user) password = (True, None))"

text \<open>The user and the token of a successful generation and insertion for the email.\<close>

definition issue_token :: "env \<Rightarrow> string \<Rightarrow> (User \<times> Token) option" where
  "issue_token e email =
     (case DB_GetUserByEmail (db e) email of
        Inl er \<Rightarrow> None
      | Inr user \<Rightarrow>
          (case models_GenerateToken (lib e) (User_ID user) (time_Hour * 24) (ScopeAuthentication (lib e)) of
             Inl er \<Rightarrow> None
           | Inr token \<Rightarrow> if DB_InsertToken (db e) token user = None then Some (user, token) else None))"

subsection \<open>Kinds of response\<close>

text \<open>
  A payload tells a failure by its flag: \<open>ok = false\<close> in a \<open>jsonResponse\<close>,
  \<open>error = true\<close> in the anonymous structs. A response through \<open>writeJSON\<close> is a
  success when the flag is off and the status is 200 or 201
  (\<open>http.StatusOK\<close>, \<open>http.StatusCreated\<close>); with the flag off and any other status it
  is of the kind \<open>OtherStatus\<close>. A direct write sets no status, so 200.
\<close>

fun payload_failed :: "payload \<Rightarrow> bool" where
  "payload_failed (PJsonResponse j) = (\<not> Resp_OK j)"
| "payload_failed (PStatus er m) = er"
| "payload_failed (PToken er m t) = er"
| "payload_failed p = False"

datatype kind =
    Success
  | BadRequest
  | InvalidCredentials
  | FailedValidation
  | DirectNotOK
  | ErrorFlag int
  | OtherStatus int

fun kind_of :: "response \<Rightarrow> kind" where
  "kind_of (badRequest er) = BadRequest"
| "kind_of invalidCredentials = InvalidCredentials"
| "kind_of (failedValidation errs) = FailedValidation"
| "kind_of (writeJSON st p) =
     (if payload_failed p then ErrorFlag st
      else if st = 200 \<or> st = 201 then Success
      else OtherStatus st)"
| "kind_of (Direct p out) = (if payload_failed p then DirectNotOK else Success)"

text \<open>The kinds of response that the handlers are shown to produce.\<close>

definition response_kinds :: "kind set" where
  "response_kinds =
     {Success, BadRequest, InvalidCredentials, FailedValidation, DirectNotOK, ErrorFlag 202}"

section \<open>Example worlds\<close>

text \<open>A world in which every call succeeds, and one administrator exists.\<close>

definition cards_ok :: cards_api where
  "cards_ok =
     \<lparr>paymentintent_New = (\<lambda>k p. (Some \<lparr>PaymentIntent_ID = ''pi_1'',
                                   PaymentIntent_LatestCharge = Some \<lparr>Charge_ID = ''ch_1''\<rparr>\<rparr>, None)),
      Card_Charge = (\<lambda>c cur a. (Some \<lparr>PaymentIntent_ID = ''pi_1'',
                                   PaymentIntent_LatestCharge = Some \<lparr>Charge_ID = ''ch_1''\<rparr>\<rparr>, [], None)),
      Card_CreateCustomer = (\<lambda>c pm em. (Some (StripeCustomer ''cus_1''), [], None)),
      Card_SubscribeToPlan = (\<lambda>c cu pl em lf x. (Some \<lparr>Subscription_ID = ''sub_1''\<rparr>, None)),
      Card_RetrievePaymentIntent = (\<lambda>c i. (Some \<lparr>PaymentIntent_ID = i,
                                   PaymentIntent_LatestCharge = Some \<lparr>Charge_ID = ''ch_1''\<rparr>\<rparr>, None)),
      Card_GetPaymentMethod = (\<lambda>c m. (Some \<lparr>PaymentMethod_Card = Some \<lparr>PMCard_Last4 = ''4242'',
                                   PMCard_ExpMonth = 12, PMCard_ExpYear = 2030\<rparr>\<rparr>, None)),
      Card_Refund = (\<lambda>c i a. None),
      Card_CancelSubscriptions = (\<lambda>c i. None)\<rparr>"

definition admin :: User where
  "admin = \<lparr>User_ID = 1, User_Email = ''admin@example.com'', User_Password = ''hash-of-secret''\<rparr>"

definition db_ok :: db_api where
  "db_ok =
     \<lparr>DB_InsertCustomer = (\<lambda>c. Inr 11),
      DB_InsertTransaction = (\<lambda>t. Inr 22),
      DB_InsertOrder = (\<lambda>ord. Inr 33),
      DB_GetWidget = (\<lambda>i. Inr (Widget ''widget'')),
      DB_GetUserByEmail = (\<lambda>em. if em = User_Email admin then Inr admin else Inl ''sql: no rows in result set''),
      DB_GetUserForToken = (\<lambda>t. (Some admin, None)),
      DB_InsertToken = (\<lambda>t u. None),
      DB_UpdatePasswordForUser = (\<lambda>u h. None),
      DB_GetAllOrdersPaginated = (\<lambda>ps cp. Inr ([], 1, 0)),
      DB_GetAllSubscriptionsPaginated = (\<lambda>ps cp. Inr ([], 1, 0)),
      DB_GetOrderByID = (\<lambda>i. Inl ''sql: no rows in result set''),
      DB_UpdateOrderStatus = (\<lambda>i st. None),
      DB_GetAllUsers = Inr [admin],
      DB_GetOneUser = (\<lambda>i. if i = User_ID admin then Inr admin else Inl ''sql: no rows in result set''),
      DB_EditUser = (\<lambda>u. None),
      DB_AddUser = (\<lambda>u h. None),
      DB_DeleteUser = (\<lambda>i. None)\<rparr>"

definition lib_ok :: lib_api where
  "lib_ok =
     \<lparr>MarshalIndent = (\<lambda>p prefix indent. Inr ''{}''),
      url_Parse = (\<lambda>u. None),
      client_Do = (\<lambda>req. None),
      time_Now = (\<lambda>n. 1000 + int n),
      validator_Valid = (\<lambda>checks. list_all fst checks),
      validator_Errors = (\<lambda>checks. map snd (filter (\<lambda>c. \<not> fst c) checks)),
      passwordMatches = (\<lambda>hash password. (hash = ''hash-of-'' @ password, None)),
      models_GenerateToken = (\<lambda>u ttl scope. Inr (Token ''ABCDEFGHIJKLMNOPQRSTUVWXYZ'')),
      ScopeAuthentication = ''authentication'',
      bcrypt_GenerateFromPassword = (\<lambda>password cost. Inr (''hash-of-'' @ password)),
      encryption_Decrypt = (\<lambda>k c. Inr c),
      GenerateTokenFromString = (\<lambda>k l. l @ ''&hash=x''),
      app_SendMail = (\<lambda>f t su tm d. None)\<rparr>"

definition world_ok :: env where
  "world_ok = \<lparr>cards = cards_ok, db = db_ok, lib = lib_ok\<rparr>"

text \<open>Worlds in which one call fails.\<close>

definition world_card_declined :: env where
  "world_card_declined =
     world_ok\<lparr>cards := cards_ok\<lparr>Card_CreateCustomer := (\<lambda>c pm em. (None, ''Your card was declined'', Some ''card_declined'')),
                                 Card_Charge := (\<lambda>c cur a. (None, ''Your card was declined'', Some ''card_declined'')),
                                 paymentintent_New := (\<lambda>k p. (None, Some (StripeError ''card_declined'' ''declined'')))\<rparr>\<rparr>"

definition world_customer_insert_fails :: env where
  "world_customer_insert_fails =
     world_ok\<lparr>db := db_ok\<lparr>DB_InsertCustomer := (\<lambda>c. Inl ''connection refused'')\<rparr>\<rparr>"

definition world_order_insert_fails :: env where
  "world_order_insert_fails =
     world_ok\<lparr>db := db_ok\<lparr>DB_InsertOrder := (\<lambda>ord. Inl ''connection refused'')\<rparr>\<rparr>"

definition world_token_insert_fails :: env where
  "world_token_insert_fails =
     world_ok\<lparr>db := db_ok\<lparr>DB_InsertToken := (\<lambda>t u. Some ''connection refused'')\<rparr>\<rparr>"

definition app0 :: application where
  "app0 =
     \<lparr>app_config = \<lparr>config_port = 4001, config_env = ''development'', config_db_dsn = ''dsn'',
                     config_stripe_secret = ''sk_test'', config_stripe_key = ''pk_test'',
                     config_smtp_host = ''smtp.example.com'', config_smtp_port = 587,
                     config_smtp_username = ''user'', config_smtp_password = ''pass'',
                     config_secretkey = ''qdYaJw3sIhTVH5opBEr0PNoIXLWr5QqC'',
                     config_frontend = ''http://localhost:4000''\<rparr>,
      app_version = ''1.0.0'', app_DB = 0\<rparr>"

definition card0 :: Card where
  "card0 = \<lparr>Card_Secret = ''sk_test'', Card_Key = ''pk_test'', Card_Currency = ''eur''\<rparr>"

definition payload0 :: stripePayload where
  "payload0 =
     \<lparr>Payload_Currency = ''eur'', Payload_Amount = ''999'', Payload_PaymentMethod = ''pm_1'',
      Payload_Email = ''jo@example.com'', Payload_LastFour = ''4242'', Payload_Plan = ''price_1'',
      Payload_ProductID = ''2'', Payload_FirstName = ''Jo'', Payload_LastName = ''Doe'',
      Payload_ExpiryMonth = 12, Payload_ExpiryYear = 2030\<rparr>"

definition req_bearer :: Request where
  "req_bearer = \<lparr>Request_Header = [(''Authorization'', [''Bearer ABCDEFGHIJKLMNOPQRSTUVWXYZ''])]\<rparr>"

definition req_basic :: Request where
  "req_basic = \<lparr>Request_Header = [(''Authorization'', [''Basic ABCDEFGHIJKLMNOPQRSTUVWXYZ''])]\<rparr>"

section \<open>Lemmas\<close>

lemmas world_defs = world_ok_def cards_ok_def db_ok_def lib_ok_def admin_def app0_def payload0_def
  world_card_declined_def world_customer_insert_fails_def world_order_insert_fails_def
  world_token_insert_fails_def

subsection \<open>Events of a concatenation\<close>

lemma calls_append: "calls (xs @ ys) = calls xs @ calls ys"
  by (induction xs rule: calls.induct) simp_all

lemma responses_append: "responses (xs @ ys) = responses xs @ responses ys"
  by (induction xs rule: responses.induct) simp_all

lemma logged_append: "logged (xs @ ys) = logged xs @ logged ys"
  by (induction xs rule: logged.induct) simp_all

lemma assigned_append: "assigned (xs @ ys) = assigned xs @ assigned ys"
  by (induction xs rule: assigned.induct) simp_all

subsection \<open>The subscription handler, part by part\<close>

text \<open>
  Each part of the handler is rewritten as a case distinction on the answers of the world
  alone, with the values it builds kept under their names; the theorems on the handler
  split these cases.
\<close>

lemma callInvoiceMicro_unfold:
  "callInvoiceMicro e app invoice =
     (case MarshalIndent (lib e) (PInvoice invoice) [] [CHR 0x09] of
        Inl er \<Rightarrow> (Some er, [])
      | Inr out \<Rightarrow>
          (case url_Parse (lib e) ''http://localhost:5000/invoice/create-and-send'' of
             Some er \<Rightarrow> (Some er, [])
           | None \<Rightarrow> (client_Do (lib e) (sub_request out), [Call (HttpDo (sub_request out))])))"
  by (simp add: callInvoiceMicro_def http_NewRequest_def Header_Set_def sub_request_def Let_def
           split: sum.splits option.splits)

lemma persist_unfold:
  "Subscribe_persist e app data subscription =
     (case DB_InsertCustomer (db e) (sub_customer data) of
        Inl er \<Rightarrow> (True, [Call (InsertCustomer (sub_customer data)), Log er])
      | Inr customerID \<Rightarrow>
          (case subscription of
             None \<Rightarrow> (True, [Call (InsertCustomer (sub_customer data)), Panic])
           | Some sub \<Rightarrow>
               (case DB_InsertTransaction (db e) (sub_txn data sub) of
                  Inl er \<Rightarrow>
                    (True, [Call (InsertCustomer (sub_customer data)),
                            Call (InsertTransaction (sub_txn data sub)), Log er])
                | Inr txnID \<Rightarrow>
                    (case DB_InsertOrder (db e) (sub_order e data customerID txnID) of
                       Inl er \<Rightarrow>
                         (True, [Call (InsertCustomer (sub_customer data)),
                                 Call (InsertTransaction (sub_txn data sub)),
                                 Call (InsertOrder (sub_order e data customerID txnID)), Log er])
                     | Inr orderID \<Rightarrow>
                         (case callInvoiceMicro e app (sub_invoice e data orderID) of
                            (Some er, evs) \<Rightarrow>
                              (False, [Call (InsertCustomer (sub_customer data)),
                                       Call (InsertTransaction (sub_txn data sub)),
                                       Call (InsertOrder (sub_order e data customerID txnID))]
                                      @ evs @ [Log er])
                          | (None, evs) \<Rightarrow>
                              (False, [Call (InsertCustomer (sub_customer data)),
                                       Call (InsertTransaction (sub_txn data sub)),
                                       Call (InsertOrder (sub_order e data customerID txnID))]
                                      @ evs))))))"
  by (simp add: Subscribe_persist_def SaveCustomer_def SaveTransaction_def SaveOrder_def
        sub_customer_def sub_txn_def sub_order_def sub_invoice_def Let_def
        split: sum.splits option.splits prod.splits)

lemma subscribe_unfold:
  "CreateCustomerAndSubscribeToPlan e app body =
     (case body of
        Inl er \<Rightarrow> [Log er]
      | Inr data \<Rightarrow>
          if \<not> validator_Valid (lib e) (sub_checks data)
          then [Respond (failedValidation (validator_Errors (lib e) (sub_checks data)))]
          else
            (case Card_CreateCustomer (cards e) (app_card app (Payload_Currency data))
                    (Payload_PaymentMethod data) (Payload_Email data) of
               (cu, msg, Some er) \<Rightarrow> [Call (sub_c1 app data), Log er] @ Subscribe_respond e False msg
             | (cu, msg, None) \<Rightarrow>
                 (case Card_SubscribeToPlan (cards e) (app_card app (Payload_Currency data)) cu
                         (Payload_Plan data) (Payload_Email data) (Payload_LastFour data) [] of
                    (sub, Some er) \<Rightarrow>
                      [Call (sub_c1 app data), Call (sub_c2 app data cu), Log er]
                      @ Subscribe_respond e False ''Error subscribing customer''
                  | (sub, None) \<Rightarrow>
                      (case Subscribe_persist e app data sub of
                         (True, evs) \<Rightarrow> [Call (sub_c1 app data), Call (sub_c2 app data cu)] @ evs
                       | (False, evs) \<Rightarrow>
                           [Call (sub_c1 app data), Call (sub_c2 app data cu)] @ evs
                           @ Subscribe_respond e True ''Transaction successful''))))"
  by (simp add: CreateCustomerAndSubscribeToPlan_def Subscribe_charge_def sub_checks_def
        sub_c1_def sub_c2_def Let_def
        split: sum.splits option.splits prod.splits bool.splits)

lemma respond_unfold:
  "Subscribe_respond e okay txnMsg =
     (case MarshalIndent (lib e)
             (PJsonResponse \<lparr>Resp_OK = okay, Resp_Message = txnMsg, Resp_Content = []\<rparr>) [] ''  '' of
        Inl er \<Rightarrow> [Log er]
      | Inr out \<Rightarrow>
          [Respond (Direct (PJsonResponse \<lparr>Resp_OK = okay, Resp_Message = txnMsg, Resp_Content = []\<rparr>) out)])"
  by (simp add: Subscribe_respond_def Let_def)

lemma calls_respond: "calls (Subscribe_respond e okay txnMsg) = []"
  by (simp add: respond_unfold split: sum.splits)

lemmas subscribe_run = subscribe_unfold persist_unfold callInvoiceMicro_unfold

lemma full_subscription:
  assumes "answers_in_full e"
  shows "Card_SubscribeToPlan (cards e) c cu pl em lf x \<noteq> (None, None)"
proof
  assume nil: "Card_SubscribeToPlan (cards e) c cu pl em lf x = (None, None)"
  from assms have "snd (Card_SubscribeToPlan (cards e) c cu pl em lf x) = None
                   \<longrightarrow> fst (Card_SubscribeToPlan (cards e) c cu pl em lf x) \<noteq> None"
    unfolding answers_in_full_def by blast
  with nil show False by simp
qed

lemma full_marshal:
  assumes "answers_in_full e"
  shows "MarshalIndent (lib e) (PInvoice invoice) [] [CHR 0x09] \<noteq> Inl er"
proof
  assume failed: "MarshalIndent (lib e) (PInvoice invoice) [] [CHR 0x09] = Inl er"
  from assms have "\<not> isl (MarshalIndent (lib e) (PInvoice invoice) [] [CHR 0x09])"
    unfolding answers_in_full_def by blast
  with failed show False by simp
qed

lemma full_url:
  "answers_in_full e \<Longrightarrow> url_Parse (lib e) ''http://localhost:5000/invoice/create-and-send'' = None"
  by (simp add: answers_in_full_def)

lemma answers_in_full_ok: "answers_in_full world_ok" "answers_in_full world_order_insert_fails"
  by (simp_all add: answers_in_full_def world_ok_def world_order_insert_fails_def cards_ok_def
        lib_ok_def)

lemma succeeded_c1:
  "succeeded e (sub_c1 app data) =
     (snd (snd (Card_CreateCustomer (cards e) (app_card app (Payload_Currency data))
                  (Payload_PaymentMethod data) (Payload_Email data))) = None)"
  by (simp add: sub_c1_def)

lemma succeeded_c2:
  "succeeded e (sub_c2 app data cu) =
     (snd (Card_SubscribeToPlan (cards e) (app_card app (Payload_Currency data)) cu
             (Payload_Plan data) (Payload_Email data) (Payload_LastFour data) []) = None)"
  by (simp add: sub_c2_def)

lemma step_c1: "step_of (sub_c1 app data) = Some StepCreateCustomer"
  by (simp add: sub_c1_def)

lemma step_c2: "step_of (sub_c2 app data cu) = Some StepSubscribeToPlan"
  by (simp add: sub_c2_def)

lemma invoice_sent:
  "MarshalIndent (lib e) (PInvoice (sub_invoice e data orderID)) [] [CHR 0x09] = Inr out
   \<Longrightarrow> \<exists>invoice. MarshalIndent (lib e) (PInvoice invoice) [] [CHR 0x09] = Inr (Out_Body (sub_request out))
         \<and> Invoice_Amount invoice = 2000
         \<and> Invoice_Product invoice = ''Bronze Plan monthly subscription''"
  by (rule exI [of _ "sub_invoice e data orderID"]) (simp add: sub_invoice_def sub_request_def)

subsection \<open>Runs in the example worlds\<close>

lemma run_ok:
  "CreateCustomerAndSubscribeToPlan world_ok app0 (Inr payload0)
     = [Call (sub_c1 app0 payload0), Call (sub_c2 app0 payload0 (Some (StripeCustomer ''cus_1''))),
        Call (InsertCustomer (sub_customer payload0)),
        Call (InsertTransaction (sub_txn payload0 \<lparr>Subscription_ID = ''sub_1''\<rparr>)),
        Call (InsertOrder (sub_order world_ok payload0 11 22)),
        Call (HttpDo (sub_request ''{}'')),
        Respond (Direct (PJsonResponse \<lparr>Resp_OK = True, Resp_Message = ''Transaction successful'',
                                         Resp_Content = []\<rparr>) ''{}'')]"
  by (simp add: subscribe_run respond_unfold world_defs sub_checks_def)

lemma run_customer_fails:
  "CreateCustomerAndSubscribeToPlan world_customer_insert_fails app0 (Inr payload0)
     = [Call (sub_c1 app0 payload0), Call (sub_c2 app0 payload0 (Some (StripeCustomer ''cus_1''))),
        Call (InsertCustomer (sub_customer payload0)), Log ''connection refused'']"
  by (simp add: subscribe_run world_defs sub_checks_def)

lemma run_order_fails:
  "CreateCustomerAndSubscribeToPlan world_order_insert_fails app0 (Inr payload0)
     = [Call (sub_c1 app0 payload0), Call (sub_c2 app0 payload0 (Some (StripeCustomer ''cus_1''))),
        Call (InsertCustomer (sub_customer payload0)),
        Call (InsertTransaction (sub_txn payload0 \<lparr>Subscription_ID = ''sub_1''\<rparr>)),
        Call (InsertOrder (sub_order world_order_insert_fails payload0 11 22)),
        Log ''connection refused'']"
  by (simp add: subscribe_run world_defs sub_checks_def)

lemma run_declined:
  "CreateCustomerAndSubscribeToPlan world_card_declined app0 (Inr payload0)
     = [Call (sub_c1 app0 payload0), Log ''card_declined'',
        Respond (Direct (PJsonResponse \<lparr>Resp_OK = False, Resp_Message = ''Your card was declined'',
                                         Resp_Content = []\<rparr>) ''{}'')]"
  by (simp add: subscribe_run respond_unfold world_defs sub_checks_def)

lemma run_intent_declined:
  "GetPaymentIntent world_card_declined app0 (Inr payload0)
     = [Call (CardCharge (app_card app0 ''eur'') ''eur'' 999),
        Respond (Direct (PJsonResponse \<lparr>Resp_OK = False, Resp_Message = ''Your card was declined'',
                                         Resp_Content = []\<rparr>) ''{}'')]"
  by (simp add: GetPaymentIntent_def world_defs Atoi_def is_digit_def Let_def)

lemma run_intent_ok:
  "GetPaymentIntent world_ok app0 (Inr payload0)
     = [Call (CardCharge (app_card app0 ''eur'') ''eur'' 999),
        Respond (Direct (PPaymentIntent (Some \<lparr>PaymentIntent_ID = ''pi_1'',
                   PaymentIntent_LatestCharge = Some \<lparr>Charge_ID = ''ch_1''\<rparr>\<rparr>)) ''{}'')]"
  by (simp add: GetPaymentIntent_def world_defs Atoi_def is_digit_def Let_def)

lemma bearer_good: "bearer_header (Header_Get (Request_Header req_bearer) ''Authorization'')"
  by (simp add: bearer_header_def req_bearer_def Header_Get_def)

lemma bearer_bad: "\<not> bearer_header (Header_Get (Request_Header req_basic) ''Authorization'')"
  by (simp add: bearer_header_def req_basic_def Header_Get_def)

subsection \<open>Kinds of response, handler by handler\<close>

lemma kinds_GetPaymentIntent:
  "\<forall>r \<in> set (responses (GetPaymentIntent e app body)). kind_of r \<in> response_kinds"
  by (simp add: GetPaymentIntent_def Let_def response_kinds_def
        split: sum.split option.split prod.split)

lemma kinds_Subscribe:
  "\<forall>r \<in> set (responses (CreateCustomerAndSubscribeToPlan e app body)). kind_of r \<in> response_kinds"
  by (simp add: subscribe_run respond_unfold responses_append response_kinds_def
        split: sum.split option.split prod.split bool.split)

lemma kinds_CreateAuthToken:
  "\<forall>r \<in> set (responses (CreateAuthToken e app body)). kind_of r \<in> response_kinds"
  by (simp add: CreateAuthToken_def Let_def response_kinds_def
        split: sum.split option.split prod.split)

lemma kinds_CheckAuthentication:
  "\<forall>r \<in> set (responses (CheckAuthentication e app r0)). kind_of r \<in> response_kinds"
  by (auto simp add: CheckAuthentication_def authenticateToken_def Let_def response_kinds_def
        split: sum.split option.split prod.split)

lemma kinds_VirtualTerminal:
  "\<forall>r \<in> set (responses (VirtualTerminalPaymentSucceeded e app body)). kind_of r \<in> response_kinds"
  by (auto simp add: VirtualTerminalPaymentSucceeded_def SaveTransaction_def Let_def
        response_kinds_def split: sum.split option.split prod.split)

lemma kinds_EditUser:
  "\<forall>r \<in> set (responses (EditUser e app ident body)). kind_of r \<in> response_kinds"
  by (simp add: EditUser_def Let_def response_kinds_def
        split: sum.split option.split prod.split)

subsection \<open>How far a subscription runs\<close>

lemma subscription_progress:
  assumes full: "answers_in_full e"
    and valid: "validator_Valid (lib e) (sub_checks data)"
  shows "length (calls (CreateCustomerAndSubscribeToPlan e app (Inr data)))
           = min (length subscription_sequence)
               (Suc (length (takeWhile (succeeded e)
                               (calls (CreateCustomerAndSubscribeToPlan e app (Inr data))))))"
proof -
  obtain cu msg er1 where cc:
    "Card_CreateCustomer (cards e) (app_card app (Payload_Currency data))
       (Payload_PaymentMethod data) (Payload_Email data) = (cu, msg, er1)"
    by (cases "Card_CreateCustomer (cards e) (app_card app (Payload_Currency data))
                 (Payload_PaymentMethod data) (Payload_Email data)") auto
  show ?thesis
  proof (cases er1)
    case (Some er)
    with cc valid show ?thesis
      by (simp add: subscribe_unfold calls_append calls_respond succeeded_c1
            subscription_sequence_def)
  next
    case None
    note c1 = cc [unfolded None]
    obtain sub er2 where ss:
      "Card_SubscribeToPlan (cards e) (app_card app (Payload_Currency data)) cu
         (Payload_Plan data) (Payload_Email data) (Payload_LastFour data) [] = (sub, er2)"
      by (cases "Card_SubscribeToPlan (cards e) (app_card app (Payload_Currency data)) cu
                   (Payload_Plan data) (Payload_Email data) (Payload_LastFour data) []") auto
    show ?thesis
    proof (cases er2)
      case (Some er)
      with c1 ss valid show ?thesis
        by (simp add: subscribe_unfold calls_append calls_respond succeeded_c1 succeeded_c2
              subscription_sequence_def)
    next
      case None
      note c2 = ss [unfolded None]
      from full_subscription [OF full] c2 obtain s where sub: "sub = Some s"
        by (cases sub) auto
      note c2 = c2 [unfolded sub]
      show ?thesis
      proof (cases "DB_InsertCustomer (db e) (sub_customer data)")
        case (Inl er)
        with c1 c2 valid show ?thesis
          by (simp add: subscribe_run calls_append calls_respond succeeded_c1 succeeded_c2
                subscription_sequence_def)
      next
        case c3: (Inr customerID)
        show ?thesis
        proof (cases "DB_InsertTransaction (db e) (sub_txn data s)")
          case (Inl er)
          with c1 c2 c3 valid show ?thesis
            by (simp add: subscribe_run calls_append calls_respond succeeded_c1 succeeded_c2
                  subscription_sequence_def)
        next
          case c4: (Inr txnID)
          show ?thesis
          proof (cases "DB_InsertOrder (db e) (sub_order e data customerID txnID)")
            case (Inl er)
            with c1 c2 c3 c4 valid show ?thesis
              by (simp add: subscribe_run calls_append calls_respond succeeded_c1 succeeded_c2
                    subscription_sequence_def)
          next
            case c5: (Inr orderID)
            from full_marshal [OF full] obtain out where
              m: "MarshalIndent (lib e) (PInvoice (sub_invoice e data orderID)) [] [CHR 0x09] = Inr out"
              by (cases "MarshalIndent (lib e) (PInvoice (sub_invoice e data orderID)) [] [CHR 0x09]")
                auto
            from c1 c2 c3 c4 c5 m full_url [OF full] valid show ?thesis
              by (simp add: subscribe_run calls_append calls_respond succeeded_c1 succeeded_c2
                    subscription_sequence_def split: option.split)
          qed
        qed
      qed
    qed
  qed
qed

subsection \<open>Assignments to package-level variables, handler by handler\<close>

lemma quiet_GetPaymentIntent: "assigned (GetPaymentIntent e app body) = []"
  by (simp add: GetPaymentIntent_def Let_def split: sum.split option.split prod.split)

lemma quiet_Subscribe: "assigned (CreateCustomerAndSubscribeToPlan e app body) = []"
  by (simp add: subscribe_run respond_unfold assigned_append
        split: sum.split option.split prod.split bool.split)

lemma quiet_CreateAuthToken: "assigned (CreateAuthToken e app body) = []"
  by (simp add: CreateAuthToken_def Let_def split: sum.split option.split prod.split)

lemma quiet_CheckAuthentication: "assigned (CheckAuthentication e app r0) = []"
  by (auto simp add: CheckAuthentication_def authenticateToken_def Let_def assigned_append
        split: sum.split option.split prod.split)

lemma quiet_VirtualTerminal: "assigned (VirtualTerminalPaymentSucceeded e app body) = []"
  by (auto simp add: VirtualTerminalPaymentSucceeded_def SaveTransaction_def Let_def assigned_append
        split: sum.split option.split prod.split)

lemma quiet_EditUser: "assigned (EditUser e app ident body) = []"
  by (simp add: EditUser_def Let_def split: sum.split option.split prod.split)

section \<open>Theorems\<close>

text \<open>
  C1. \<open>CreateCustomerAndSubscribeToPlan\<close> runs one fixed sequence: create the customer
  at the payment provider, subscribe it to the plan, save the customer, save the
  transaction, save the order, call the invoice microservice. The calls of any run, in
  order, are a prefix of that sequence, with no other call among them, and every call that
  is followed by a later one was answered without error: a later step runs only if every
  earlier step succeeded. And the steps do run: for a body that decodes and passes
  validation the first step is always taken, and in a world that leaves nothing to stop at
  but a failed call, the run goes one step past its leading successful calls, to the call
  of the invoice microservice when all five before it succeed.
\<close>

theorem subscription_linear:
  "prefix (map step_of (calls (CreateCustomerAndSubscribeToPlan e app body)))
          (map Some subscription_sequence)
   \<and> (\<forall>c \<in> set (butlast (calls (CreateCustomerAndSubscribeToPlan e app body))). succeeded e c)
   \<and> (\<forall>data. body = Inr data \<and> validator_Valid (lib e) (sub_checks data)
         \<longrightarrow> calls (CreateCustomerAndSubscribeToPlan e app body) \<noteq> [])
   \<and> (\<forall>data. body = Inr data \<and> validator_Valid (lib e) (sub_checks data) \<and> answers_in_full e
         \<longrightarrow> length (calls (CreateCustomerAndSubscribeToPlan e app body))
             = min (length subscription_sequence)
                 (Suc (length (takeWhile (succeeded e)
                                 (calls (CreateCustomerAndSubscribeToPlan e app body))))))"
proof -
  have order: "prefix (map step_of (calls (CreateCustomerAndSubscribeToPlan e app body)))
                      (map Some subscription_sequence)
               \<and> (\<forall>c \<in> set (butlast (calls (CreateCustomerAndSubscribeToPlan e app body))). succeeded e c)"
    by (auto simp add: subscribe_run calls_append calls_respond
          succeeded_c1 succeeded_c2 step_c1 step_c2 subscription_sequence_def
          split: sum.split option.split prod.split bool.split)
  have first: "calls (CreateCustomerAndSubscribeToPlan e app body) \<noteq> []"
    if "body = Inr data" "validator_Valid (lib e) (sub_checks data)" for data
    using that
    by (simp add: subscribe_unfold calls_append split: option.split prod.split bool.split)
  have progress: "length (calls (CreateCustomerAndSubscribeToPlan e app body))
                    = min (length subscription_sequence)
                        (Suc (length (takeWhile (succeeded e)
                                        (calls (CreateCustomerAndSubscribeToPlan e app body)))))"
    if "body = Inr data" "validator_Valid (lib e) (sub_checks data)" "answers_in_full e" for data
    using that subscription_progress [of e data app] by simp
  show ?thesis
  proof (intro conjI allI impI)
    show "prefix (map step_of (calls (CreateCustomerAndSubscribeToPlan e app body)))
                 (map Some subscription_sequence)"
      using order by (rule conjunct1)
    show "\<forall>c \<in> set (butlast (calls (CreateCustomerAndSubscribeToPlan e app body))). succeeded e c"
      using order by (rule conjunct2)
  next
    fix data
    assume "body = Inr data \<and> validator_Valid (lib e) (sub_checks data)"
    then show "calls (CreateCustomerAndSubscribeToPlan e app body) \<noteq> []"
      using first [of data] by (elim conjE)
  next
    fix data
    assume "body = Inr data \<and> validator_Valid (lib e) (sub_checks data) \<and> answers_in_full e"
    then show "length (calls (CreateCustomerAndSubscribeToPlan e app body))
                 = min (length subscription_sequence)
                     (Suc (length (takeWhile (succeeded e)
                                     (calls (CreateCustomerAndSubscribeToPlan e app body)))))"
      using progress [of data] by (elim conjE)
  qed
qed

theorem subscription_linear_witness:
  "answers_in_full world_ok
   \<and> validator_Valid (lib world_ok) (sub_checks payload0)
   \<and> map step_of (calls (CreateCustomerAndSubscribeToPlan world_ok app0 (Inr payload0)))
       = map Some subscription_sequence
   \<and> takeWhile (succeeded world_ok) (calls (CreateCustomerAndSubscribeToPlan world_ok app0 (Inr payload0)))
       = calls (CreateCustomerAndSubscribeToPlan world_ok app0 (Inr payload0))
   \<and> last (calls (CreateCustomerAndSubscribeToPlan world_ok app0 (Inr payload0)))
       = HttpDo (sub_request ''{}'')
   \<and> length (calls (CreateCustomerAndSubscribeToPlan world_ok app0 (Inr payload0))) = 6
   \<and> answers_in_full world_order_insert_fails
   \<and> map step_of (calls (CreateCustomerAndSubscribeToPlan world_order_insert_fails app0 (Inr payload0)))
       = map Some (take 5 subscription_sequence)
   \<and> prefix (map step_of (calls (CreateCustomerAndSubscribeToPlan world_order_insert_fails app0 (Inr payload0))))
            (map Some subscription_sequence)
   \<and> butlast (calls (CreateCustomerAndSubscribeToPlan world_order_insert_fails app0 (Inr payload0)))
       = [sub_c1 app0 payload0, sub_c2 app0 payload0 (Some (StripeCustomer ''cus_1'')),
          InsertCustomer (sub_customer payload0),
          InsertTransaction (sub_txn payload0 \<lparr>Subscription_ID = ''sub_1''\<rparr>)]
   \<and> succeeded world_order_insert_fails (sub_c1 app0 payload0)
   \<and> succeeded world_order_insert_fails (sub_c2 app0 payload0 (Some (StripeCustomer ''cus_1'')))
   \<and> succeeded world_order_insert_fails (InsertCustomer (sub_customer payload0))
   \<and> succeeded world_order_insert_fails
        (InsertTransaction (sub_txn payload0 \<lparr>Subscription_ID = ''sub_1''\<rparr>))
   \<and> \<not> succeeded world_order_insert_fails
        (InsertOrder (sub_order world_order_insert_fails payload0 11 22))
   \<and> length (takeWhile (succeeded world_order_insert_fails)
               (calls (CreateCustomerAndSubscribeToPlan world_order_insert_fails app0 (Inr payload0)))) = 4"
proof -
  have valid: "validator_Valid (lib world_ok) (sub_checks payload0)"
    "validator_Valid (lib world_order_insert_fails) (sub_checks payload0)"
    by (simp_all add: sub_checks_def world_defs)
  have all_ok: "succeeded world_ok (sub_c1 app0 payload0)"
    "succeeded world_ok (sub_c2 app0 payload0 (Some (StripeCustomer ''cus_1'')))"
    "succeeded world_ok (InsertCustomer (sub_customer payload0))"
    "succeeded world_ok (InsertTransaction (sub_txn payload0 \<lparr>Subscription_ID = ''sub_1''\<rparr>))"
    "succeeded world_ok (InsertOrder (sub_order world_ok payload0 11 22))"
    "succeeded world_ok (HttpDo (sub_request ''{}''))"
    by (simp_all add: sub_c1_def sub_c2_def world_defs)
  have last_failed: "\<not> succeeded world_order_insert_fails
                        (InsertOrder (sub_order world_order_insert_fails payload0 11 22))"
    by (simp add: world_defs)
  have reached: "length (calls (CreateCustomerAndSubscribeToPlan world_ok app0 (Inr payload0)))
                   = min (length subscription_sequence)
                       (Suc (length (takeWhile (succeeded world_ok)
                          (calls (CreateCustomerAndSubscribeToPlan world_ok app0 (Inr payload0))))))"
    using subscription_linear [of world_ok app0 "Inr payload0", THEN conjunct2, THEN conjunct2,
        THEN conjunct2, rule_format, of payload0] valid(1) answers_in_full_ok(1)
    by simp
  have ordered: "prefix (map step_of (calls (CreateCustomerAndSubscribeToPlan world_order_insert_fails app0 (Inr payload0))))
                        (map Some subscription_sequence)"
    using subscription_linear [of world_order_insert_fails app0 "Inr payload0", THEN conjunct1] .
  have earlier: "\<forall>c \<in> set (butlast (calls (CreateCustomerAndSubscribeToPlan world_order_insert_fails app0 (Inr payload0)))).
                   succeeded world_order_insert_fails c"
    using subscription_linear [of world_order_insert_fails app0 "Inr payload0", THEN conjunct2,
        THEN conjunct1] .
  show ?thesis
    using reached ordered earlier answers_in_full_ok valid all_ok last_failed
    by (simp add: run_ok run_order_fails step_c1 step_c2 subscription_sequence_def)
qed

text \<open>
  C3. In \<open>CreateCustomerAndSubscribeToPlan\<close> no call of any run refunds, cancels a
  subscription, changes an order's status or deletes a row; and when the database answers
  one of the three writes (customer, transaction, order) with an error, what follows that
  call in the run is the log line of the error and nothing else: the handler logs and
  stops.
\<close>

theorem persistence_failure_not_compensated:
  "\<forall>c \<in> set (calls (CreateCustomerAndSubscribeToPlan e app body)).
     \<not> compensating c
     \<and> (\<forall>er. failure e c = Some er
           \<longrightarrow> after (Call c) (CreateCustomerAndSubscribeToPlan e app body) = [Log er])"
  by (auto simp add: subscribe_run calls_append calls_respond sub_c1_def sub_c2_def
        split: sum.split option.split prod.split bool.split)

theorem persistence_failure_not_compensated_witness:
  "InsertOrder (sub_order world_order_insert_fails payload0 11 22)
     \<in> set (calls (CreateCustomerAndSubscribeToPlan world_order_insert_fails app0 (Inr payload0)))
   \<and> failure world_order_insert_fails (InsertOrder (sub_order world_order_insert_fails payload0 11 22))
       = Some ''connection refused''
   \<and> succeeded world_order_insert_fails (sub_c1 app0 payload0)
   \<and> succeeded world_order_insert_fails (sub_c2 app0 payload0 (Some (StripeCustomer ''cus_1'')))
   \<and> \<not> compensating (InsertOrder (sub_order world_order_insert_fails payload0 11 22))
   \<and> after (Call (InsertOrder (sub_order world_order_insert_fails payload0 11 22)))
        (CreateCustomerAndSubscribeToPlan world_order_insert_fails app0 (Inr payload0))
       = [Log ''connection refused'']"
proof -
  have failed: "failure world_order_insert_fails (InsertOrder (sub_order world_order_insert_fails payload0 11 22))
                  = Some ''connection refused''"
    by (simp add: world_defs)
  have charged: "succeeded world_order_insert_fails (sub_c1 app0 payload0)"
    "succeeded world_order_insert_fails (sub_c2 app0 payload0 (Some (StripeCustomer ''cus_1'')))"
    by (simp_all add: sub_c1_def sub_c2_def world_defs)
  show ?thesis
    using persistence_failure_not_compensated [of world_order_insert_fails app0 "Inr payload0"]
      failed charged
    by (simp add: run_order_fails sub_c1_def sub_c2_def)
qed

text \<open>
  C9. Whatever the payload, in every run of \<open>CreateCustomerAndSubscribeToPlan\<close> a saved
  transaction has currency \<open>usd\<close>, a saved order has quantity 1, and the body posted to
  the invoice microservice is the JSON of an invoice with amount 2000 and product
  \<open>Bronze Plan monthly subscription\<close>.
\<close>

theorem subscription_constants:
  "\<forall>c \<in> set (calls (CreateCustomerAndSubscribeToPlan e app body)).
     (\<forall>t. c = InsertTransaction t \<longrightarrow> Txn_Currency t = ''usd'')
     \<and> (\<forall>ord. c = InsertOrder ord \<longrightarrow> Order_Quantity ord = 1)
     \<and> (\<forall>req. c = HttpDo req \<longrightarrow>
           (\<exists>invoice. MarshalIndent (lib e) (PInvoice invoice) [] [CHR 0x09] = Inr (Out_Body req)
               \<and> Invoice_Amount invoice = 2000
               \<and> Invoice_Product invoice = ''Bronze Plan monthly subscription''))"
  by (auto simp add: subscribe_run calls_append calls_respond sub_c1_def sub_c2_def
        sub_txn_def sub_order_def intro: invoice_sent
        split: sum.split option.split prod.split bool.split)

theorem subscription_constants_witness:
  "Payload_Currency payload0 = ''eur'' \<and> Payload_Amount payload0 = ''999''
   \<and> InsertTransaction (sub_txn payload0 \<lparr>Subscription_ID = ''sub_1''\<rparr>)
       \<in> set (calls (CreateCustomerAndSubscribeToPlan world_ok app0 (Inr payload0)))
   \<and> Txn_Currency (sub_txn payload0 \<lparr>Subscription_ID = ''sub_1''\<rparr>) = ''usd''
   \<and> InsertOrder (sub_order world_ok payload0 11 22)
       \<in> set (calls (CreateCustomerAndSubscribeToPlan world_ok app0 (Inr payload0)))
   \<and> Order_Quantity (sub_order world_ok payload0 11 22) = 1
   \<and> HttpDo (sub_request ''{}'')
       \<in> set (calls (CreateCustomerAndSubscribeToPlan world_ok app0 (Inr payload0)))
   \<and> (\<exists>invoice. MarshalIndent (lib world_ok) (PInvoice invoice) [] [CHR 0x09]
                   = Inr (Out_Body (sub_request ''{}''))
         \<and> Invoice_Amount invoice = 2000
         \<and> Invoice_Product invoice = ''Bronze Plan monthly subscription'')"
proof -
  have payload: "Payload_Currency payload0 = ''eur''" "Payload_Amount payload0 = ''999''"
    by (simp_all add: payload0_def)
  have built: "Txn_Currency (sub_txn payload0 \<lparr>Subscription_ID = ''sub_1''\<rparr>) = ''usd''"
    "Order_Quantity (sub_order world_ok payload0 11 22) = 1"
    by (simp_all add: sub_txn_def sub_order_def)
  show ?thesis
    using subscription_constants [of world_ok app0 "Inr payload0"] payload built
    by (simp add: run_ok sub_c1_def sub_c2_def)
qed

text \<open>
  C10. \<open>cardErrorMessage\<close> answers "Your card is expired" exactly for the code
  \<open>ErrorCodeExpiredCard\<close>, and "Your card was declined" for every other code, the
  listed \<open>ErrorCodeCardDeclined\<close> and all unlisted ones alike.
\<close>

theorem cardErrorMessage_cases:
  "(cardErrorMessage code = ''Your card is expired'') = (code = ErrorCodeExpiredCard)
   \<and> (cardErrorMessage code = ''Your card was declined'') = (code \<noteq> ErrorCodeExpiredCard)
   \<and> cardErrorMessage ErrorCodeCardDeclined = ''Your card was declined''"
  by (simp add: cardErrorMessage_def ErrorCodeCardDeclined_def ErrorCodeExpiredCard_def)

text \<open>
  C8. \<open>authenticateToken\<close> returns without an error only for an \<open>Authorization\<close>
  header that is present, splits on spaces into exactly two parts, has \<open>Bearer\<close> as the
  first and 26 bytes as the second. For a header that breaks one of these conditions it
  returns no user and an error, and makes no call at all, so the database is not asked for
  a user; for a header that meets them the one call it makes is the lookup of the token.
\<close>

theorem authenticateToken_guard:
  "(snd (fst (authenticateToken e r)) = None
      \<longrightarrow> bearer_header (Header_Get (Request_Header r) ''Authorization''))
   \<and> (\<not> bearer_header (Header_Get (Request_Header r) ''Authorization'')
      \<longrightarrow> fst (fst (authenticateToken e r)) = None
          \<and> snd (fst (authenticateToken e r)) \<noteq> None
          \<and> snd (authenticateToken e r) = [])
   \<and> (bearer_header (Header_Get (Request_Header r) ''Authorization'')
      \<longrightarrow> snd (authenticateToken e r)
            = [Call (GetUserForToken (Split (Header_Get (Request_Header r) ''Authorization'') CHR '' '' ! 1))])"
  by (auto simp: authenticateToken_def bearer_header_def Let_def split: prod.splits option.splits)

theorem authenticateToken_guard_witness:
  "bearer_header (Header_Get (Request_Header req_bearer) ''Authorization'')
   \<and> authenticateToken world_ok req_bearer
       = ((Some admin, None), [Call (GetUserForToken ''ABCDEFGHIJKLMNOPQRSTUVWXYZ'')])
   \<and> \<not> bearer_header (Header_Get (Request_Header req_basic) ''Authorization'')
   \<and> authenticateToken world_ok req_basic = ((None, Some ''no authorization header received''), [])"
proof -
  have good: "authenticateToken world_ok req_bearer
                = ((Some admin, None), [Call (GetUserForToken ''ABCDEFGHIJKLMNOPQRSTUVWXYZ'')])"
    by (simp add: authenticateToken_def req_bearer_def Header_Get_def world_ok_def db_ok_def)
  have bad: "authenticateToken world_ok req_basic = ((None, Some ''no authorization header received''), [])"
    by (simp add: authenticateToken_def req_basic_def Header_Get_def)
  show ?thesis
    using authenticateToken_guard [of world_ok req_bearer] authenticateToken_guard [of world_ok req_basic]
      bearer_good bearer_bad good bad
    by simp
qed

text \<open>
  C6. Every call \<open>callInvoiceMicro\<close> makes is an HTTP request with method \<open>POST\<close>, the
  URL \<open>http://localhost:5000/invoice/create-and-send\<close> whatever the application's
  configuration, the invoice and the world, the header \<open>Content-Type: application/json\<close>,
  and the JSON of the invoice as its body; when marshalling and URL parsing succeed it
  makes exactly one.
\<close>

theorem callInvoiceMicro_request:
  "(\<forall>ev \<in> set (snd (callInvoiceMicro e app invoice)).
      \<exists>req. ev = Call (HttpDo req)
        \<and> Out_Method req = ''POST''
        \<and> Out_URL req = ''http://localhost:5000/invoice/create-and-send''
        \<and> Header_Get (Out_Header req) ''Content-Type'' = ''application/json''
        \<and> MarshalIndent (lib e) (PInvoice invoice) [] [CHR 0x09] = Inr (Out_Body req))
   \<and> (\<forall>out. MarshalIndent (lib e) (PInvoice invoice) [] [CHR 0x09] = Inr out
          \<and> url_Parse (lib e) ''http://localhost:5000/invoice/create-and-send'' = None
        \<longrightarrow> length (snd (callInvoiceMicro e app invoice)) = 1)"
  by (auto simp: callInvoiceMicro_unfold sub_request_def Header_Get_def
           split: sum.split option.split)

theorem callInvoiceMicro_request_witness:
  "callInvoiceMicro world_ok app0 (sub_invoice world_ok payload0 33)
     = (None, [Call (HttpDo (sub_request ''{}''))])
   \<and> Out_Method (sub_request ''{}'') = ''POST''
   \<and> Out_URL (sub_request ''{}'') = ''http://localhost:5000/invoice/create-and-send''
   \<and> Header_Get (Out_Header (sub_request ''{}'')) ''Content-Type'' = ''application/json''
   \<and> MarshalIndent (lib world_ok) (PInvoice (sub_invoice world_ok payload0 33)) [] [CHR 0x09]
       = Inr (Out_Body (sub_request ''{}''))
   \<and> length (snd (callInvoiceMicro world_ok app0 (sub_invoice world_ok payload0 33))) = 1"
proof -
  have run: "callInvoiceMicro world_ok app0 (sub_invoice world_ok payload0 33)
               = (None, [Call (HttpDo (sub_request ''{}''))])"
    by (simp add: callInvoiceMicro_unfold world_ok_def lib_ok_def)
  have body: "MarshalIndent (lib world_ok) (PInvoice (sub_invoice world_ok payload0 33)) [] [CHR 0x09]
                = Inr (Out_Body (sub_request ''{}''))"
    by (simp add: world_ok_def lib_ok_def sub_request_def)
  have req: "Out_Method (sub_request ''{}'') = ''POST''"
    "Out_URL (sub_request ''{}'') = ''http://localhost:5000/invoice/create-and-send''"
    "Header_Get (Out_Header (sub_request ''{}'')) ''Content-Type'' = ''application/json''"
    by (simp_all add: sub_request_def Header_Get_def)
  show ?thesis
    using callInvoiceMicro_request [of world_ok app0 "sub_invoice world_ok payload0 33"] run body req
    by simp
qed

text \<open>
  C5, as stated: \<open>CreateAuthToken\<close> grants a token exactly when the stored hash matches
  the password. It fails where the hash matches and the insertion of the token fails: the
  answer is a bad request and no token.
\<close>

theorem CreateAuthToken_counterexample:
  "stored_hash_matches world_token_insert_fails ''admin@example.com'' ''secret''
   \<and> \<not> token_granted
         (CreateAuthToken world_token_insert_fails app0 (Inr (''admin@example.com'', ''secret'')))"
  by (simp add: stored_hash_matches_def token_granted_def CreateAuthToken_def world_defs)

text \<open>
  C5, amended. For a body that decodes, \<open>CreateAuthToken\<close> grants a token exactly when
  the stored hash matches the password and the generation and the insertion of the token
  both succeed. Then the run is: look the user up, generate a token for the user's id with
  a lifetime of \<open>time.Hour * 24\<close> and the scope \<open>ScopeAuthentication\<close>, insert it, answer
  200 with it. When the lookup fails or the password does not match, the run is the lookup
  and an invalid-credentials response, so no token is generated or stored. When the hash
  matches and generation or insertion fails, the one response is a bad request.
\<close>

theorem CreateAuthToken_grant:
  "(token_granted (CreateAuthToken e app (Inr (email, password)))
      = (stored_hash_matches e email password \<and> issue_token e email \<noteq> None))
   \<and> (\<forall>user token. stored_hash_matches e email password \<and> issue_token e email = Some (user, token)
        \<longrightarrow> CreateAuthToken e app (Inr (email, password))
            = [Call (GetUserByEmail email),
               Call (GenerateToken (User_ID user) (time_Hour * 24) (ScopeAuthentication (lib e))),
               Call (InsertToken token user),
               Respond (writeJSON 200 (PToken False (''token for '' @ email @ '' created'') token))])
   \<and> (\<not> stored_hash_matches e email password
        \<longrightarrow> CreateAuthToken e app (Inr (email, password))
            = [Call (GetUserByEmail email), Respond invalidCredentials])
   \<and> (stored_hash_matches e email password \<and> issue_token e email = None
        \<longrightarrow> map kind_of (responses (CreateAuthToken e app (Inr (email, password)))) = [BadRequest])"
  by (auto simp: CreateAuthToken_def token_granted_def stored_hash_matches_def issue_token_def Let_def
           split: sum.splits option.splits prod.splits if_splits)

theorem CreateAuthToken_grant_witness:
  "stored_hash_matches world_ok ''admin@example.com'' ''secret''
   \<and> issue_token world_ok ''admin@example.com'' = Some (admin, Token ''ABCDEFGHIJKLMNOPQRSTUVWXYZ'')
   \<and> token_granted (CreateAuthToken world_ok app0 (Inr (''admin@example.com'', ''secret'')))
   \<and> CreateAuthToken world_ok app0 (Inr (''admin@example.com'', ''secret''))
       = [Call (GetUserByEmail ''admin@example.com''),
          Call (GenerateToken (User_ID admin) (time_Hour * 24) (ScopeAuthentication (lib world_ok))),
          Call (InsertToken (Token ''ABCDEFGHIJKLMNOPQRSTUVWXYZ'') admin),
          Respond (writeJSON 200 (PToken False (''token for '' @ ''admin@example.com'' @ '' created'')
                                   (Token ''ABCDEFGHIJKLMNOPQRSTUVWXYZ'')))]
   \<and> time_Hour * 24 = 86400000000000
   \<and> \<not> stored_hash_matches world_ok ''admin@example.com'' ''guess''
   \<and> CreateAuthToken world_ok app0 (Inr (''admin@example.com'', ''guess''))
       = [Call (GetUserByEmail ''admin@example.com''), Respond invalidCredentials]
   \<and> \<not> stored_hash_matches world_ok ''nobody@example.com'' ''secret''
   \<and> CreateAuthToken world_ok app0 (Inr (''nobody@example.com'', ''secret''))
       = [Call (GetUserByEmail ''nobody@example.com''), Respond invalidCredentials]
   \<and> stored_hash_matches world_token_insert_fails ''admin@example.com'' ''secret''
   \<and> issue_token world_token_insert_fails ''admin@example.com'' = None
   \<and> map kind_of (responses (CreateAuthToken world_token_insert_fails app0
                                 (Inr (''admin@example.com'', ''secret'')))) = [BadRequest]"
proof -
  have ok: "stored_hash_matches world_ok ''admin@example.com'' ''secret''"
    "issue_token world_ok ''admin@example.com'' = Some (admin, Token ''ABCDEFGHIJKLMNOPQRSTUVWXYZ'')"
    "time_Hour * 24 = 86400000000000"
    by (simp_all add: stored_hash_matches_def issue_token_def time_Hour_def world_ok_def db_ok_def
          lib_ok_def admin_def)
  have guess: "\<not> stored_hash_matches world_ok ''admin@example.com'' ''guess''"
    "\<not> stored_hash_matches world_ok ''nobody@example.com'' ''secret''"
    by (simp_all add: stored_hash_matches_def world_ok_def db_ok_def lib_ok_def admin_def)
  have insert_fails: "stored_hash_matches world_token_insert_fails ''admin@example.com'' ''secret''"
    "issue_token world_token_insert_fails ''admin@example.com'' = None"
    by (simp_all add: stored_hash_matches_def issue_token_def world_defs)
  show ?thesis
    using CreateAuthToken_grant [of world_ok app0 "''admin@example.com''" "''secret''"]
      CreateAuthToken_grant [of world_ok app0 "''admin@example.com''" "''guess''"]
      CreateAuthToken_grant [of world_ok app0 "''nobody@example.com''" "''secret''"]
      CreateAuthToken_grant [of world_token_insert_fails app0 "''admin@example.com''" "''secret''"]
      ok guess insert_fails
    by (simp add: token_granted_def)
qed

text \<open>
  C7, as stated: every error response is a bad request or an invalid-credentials
  response. It fails for a subscription whose card the payment provider declines: the
  response is a \<open>jsonResponse\<close> with \<open>ok = false\<close>, written by the handler itself.
\<close>

theorem error_kinds_counterexample:
  "map kind_of (responses (handle world_card_declined app0
                             (ReqCreateCustomerAndSubscribeToPlan (Inr payload0)))) = [DirectNotOK]
   \<and> DirectNotOK \<notin> {Success, BadRequest, InvalidCredentials}"
  by (simp add: run_declined)

text \<open>
  C7, amended. Every response of every handler is a success, which is a direct write with
  \<open>ok\<close> not false or a \<open>writeJSON\<close> with status 200 or 201 and the error flag off, or is
  of one of five kinds of error response: a bad request, invalid credentials, a failed
  validation, a \<open>jsonResponse\<close> with \<open>ok = false\<close> written by the handler itself, or a
  202 whose payload has \<open>error = true\<close>. In particular no \<open>writeJSON\<close> carries another
  status than 200, 201 or 202, and 202 goes with the flag on, 200 and 201 with it off.
\<close>

theorem response_kinds_of_handlers:
  "\<forall>r \<in> set (responses (handle e app req)).
     kind_of r \<in> {Success, BadRequest, InvalidCredentials, FailedValidation, DirectNotOK, ErrorFlag 202}
     \<and> (\<forall>st p. r = writeJSON st p
           \<longrightarrow> (if payload_failed p then st = 202 else st = 200 \<or> st = 201))"
proof -
  have kinds: "\<forall>r \<in> set (responses (handle e app req)). kind_of r \<in> response_kinds"
  proof (cases req)
    case (ReqGetPaymentIntent body)
    then show ?thesis using kinds_GetPaymentIntent [of e app body] by simp
  next
    case (ReqCreateCustomerAndSubscribeToPlan body)
    then show ?thesis using kinds_Subscribe [of e app body] by simp
  next
    case (ReqCreateAuthToken body)
    then show ?thesis using kinds_CreateAuthToken [of e app body] by simp
  next
    case (ReqCheckAuthentication r0)
    then show ?thesis using kinds_CheckAuthentication [of e app r0] by simp
  next
    case (ReqVirtualTerminalPaymentSucceeded body)
    then show ?thesis using kinds_VirtualTerminal [of e app body] by simp
  next
    case (ReqEditUser ident body)
    then show ?thesis using kinds_EditUser [of e app ident body] by simp
  qed (simp_all add: GetWidgetByID_def SendPasswordResetEmail_def ResetPassword_def AllSales_def
         AllSubscriptions_def GetSale_def RefundCharge_def CancelSubscription_def AllUsers_def
         OneUser_def DeleteUser_def CreateAndSendInvoice_def Let_def response_kinds_def
         split: sum.split option.split prod.split)
  show ?thesis
  proof
    fix r
    assume "r \<in> set (responses (handle e app req))"
    with kinds have k: "kind_of r \<in> response_kinds" by blast
    have "if payload_failed p then st = 202 else st = 200 \<or> st = 201" if "r = writeJSON st p" for st p
      using k that by (auto simp add: response_kinds_def split: if_splits)
    with k show "kind_of r \<in> {Success, BadRequest, InvalidCredentials, FailedValidation, DirectNotOK, ErrorFlag 202}
                 \<and> (\<forall>st p. r = writeJSON st p
                       \<longrightarrow> (if payload_failed p then st = 202 else st = 200 \<or> st = 201))"
      by (simp add: response_kinds_def)
  qed
qed

theorem response_kinds_of_handlers_witness:
  "map kind_of (responses (handle world_card_declined app0 (ReqGetPaymentIntent (Inr payload0))))
     = [DirectNotOK]
   \<and> responses (handle world_ok app0 (ReqSendPasswordResetEmail (Inr ''nobody@example.com'')))
       = [writeJSON 202 (PStatus True ''No matching email found on system'')]
   \<and> map kind_of (responses (handle world_ok app0
                               (ReqSendPasswordResetEmail (Inr ''nobody@example.com'')))) = [ErrorFlag 202]
   \<and> map kind_of (responses (handle world_ok app0
                               (ReqCreateCustomerAndSubscribeToPlan (Inr (payload0\<lparr>Payload_FirstName := ''J''\<rparr>)))))
       = [FailedValidation]
   \<and> map kind_of (responses (handle world_ok app0 (ReqGetSale ''7''))) = [BadRequest]
   \<and> responses (handle world_ok app0 (ReqSendPasswordResetEmail (Inr ''admin@example.com'')))
       = [writeJSON 201 (PStatus False [])]
   \<and> kind_of (writeJSON 201 (PStatus False [])) = Success
   \<and> kind_of (writeJSON 500 (PStatus False [])) = OtherStatus 500"
proof -
  have unknown: "responses (handle world_ok app0 (ReqSendPasswordResetEmail (Inr ''nobody@example.com'')))
                   = [writeJSON 202 (PStatus True ''No matching email found on system'')]"
    by (simp add: SendPasswordResetEmail_def world_ok_def db_ok_def admin_def)
  have known: "responses (handle world_ok app0 (ReqSendPasswordResetEmail (Inr ''admin@example.com'')))
                 = [writeJSON 201 (PStatus False [])]"
    by (simp add: SendPasswordResetEmail_def world_ok_def db_ok_def lib_ok_def admin_def Let_def)
  have invalid: "map kind_of (responses (handle world_ok app0
                   (ReqCreateCustomerAndSubscribeToPlan (Inr (payload0\<lparr>Payload_FirstName := ''J''\<rparr>)))))
                   = [FailedValidation]"
    by (simp add: subscribe_unfold sub_checks_def world_ok_def lib_ok_def payload0_def)
  have sale: "map kind_of (responses (handle world_ok app0 (ReqGetSale ''7''))) = [BadRequest]"
    by (simp add: GetSale_def world_ok_def db_ok_def Let_def)
  show ?thesis
    using response_kinds_of_handlers [of world_card_declined app0 "ReqGetPaymentIntent (Inr payload0)"]
      response_kinds_of_handlers [of world_ok app0 "ReqSendPasswordResetEmail (Inr ''nobody@example.com'')"]
      unknown known invalid sale
    by (simp add: run_intent_declined)
qed

text \<open>
  C4, as stated: processing a payment request writes no package-level variable. It fails
  for \<open>CreatePaymentIntent\<close>, which assigns \<open>stripe.Key\<close> on every call.
\<close>

theorem CreatePaymentIntent_assigns_counterexample:
  "assigned (snd (CreatePaymentIntent cards_ok card0 ''eur'' 999)) = [(''stripe.Key'', ''pk_test'')]
   \<and> assigned (snd (CreatePaymentIntent cards_ok card0 ''eur'' 999)) \<noteq> []"
  by (simp add: CreatePaymentIntent_def cards_ok_def card0_def)

text \<open>
  C4, amended. No statement of any handler assigns state shared between requests, a
  package-level variable or a field of the application: a run of a handler holds no
  assignment. The one assignment is in package \<open>card\<close>: every call of
  \<open>CreatePaymentIntent\<close> assigns \<open>stripe.Key\<close> the key of the card, then calls the payment
  library with that key, and does nothing else, whatever the library answers; \<open>Charge\<close>
  is the same call.
\<close>

theorem package_variable_assignments:
  "assigned (handle e app req) = []
   \<and> snd (CreatePaymentIntent api c currency amount)
       = [Assign ''stripe.Key'' (Card_Key c),
          Call (PaymentIntentNew (Card_Key c) \<lparr>Params_Amount = amount, Params_Currency = currency\<rparr>)]
   \<and> Charge api c currency amount = CreatePaymentIntent api c currency amount"
proof -
  have handlers: "assigned (handle e app req) = []"
  proof (cases req)
    case (ReqGetPaymentIntent body)
    then show ?thesis by (simp add: quiet_GetPaymentIntent)
  next
    case (ReqCreateCustomerAndSubscribeToPlan body)
    then show ?thesis by (simp add: quiet_Subscribe)
  next
    case (ReqCreateAuthToken body)
    then show ?thesis by (simp add: quiet_CreateAuthToken)
  next
    case (ReqCheckAuthentication r0)
    then show ?thesis by (simp add: quiet_CheckAuthentication)
  next
    case (ReqVirtualTerminalPaymentSucceeded body)
    then show ?thesis by (simp add: quiet_VirtualTerminal)
  next
    case (ReqEditUser ident body)
    then show ?thesis by (simp add: quiet_EditUser)
  qed (simp_all add: GetWidgetByID_def SendPasswordResetEmail_def ResetPassword_def AllSales_def
         AllSubscriptions_def GetSale_def RefundCharge_def CancelSubscription_def AllUsers_def
         OneUser_def DeleteUser_def CreateAndSendInvoice_def Let_def
         split: sum.split option.split prod.split)
  have card: "snd (CreatePaymentIntent api c currency amount)
                = [Assign ''stripe.Key'' (Card_Key c),
                   Call (PaymentIntentNew (Card_Key c) \<lparr>Params_Amount = amount, Params_Currency = currency\<rparr>)]"
    by (simp add: CreatePaymentIntent_def Let_def split: prod.split option.split)
  show ?thesis using handlers card by (simp add: Charge_def)
qed

theorem package_variable_assignments_witness:
  "handle world_ok app0 (ReqGetPaymentIntent (Inr payload0))
     = [Call (CardCharge (app_card app0 ''eur'') ''eur'' 999),
        Respond (Direct (PPaymentIntent (Some \<lparr>PaymentIntent_ID = ''pi_1'',
                   PaymentIntent_LatestCharge = Some \<lparr>Charge_ID = ''ch_1''\<rparr>\<rparr>)) ''{}'')]
   \<and> assigned (handle world_ok app0 (ReqGetPaymentIntent (Inr payload0))) = []
   \<and> assigned (handle world_ok app0 (ReqCreateCustomerAndSubscribeToPlan (Inr payload0))) = []
   \<and> Charge cards_ok card0 ''eur'' 999
       = ((Some \<lparr>PaymentIntent_ID = ''pi_1'', PaymentIntent_LatestCharge = Some \<lparr>Charge_ID = ''ch_1''\<rparr>\<rparr>,
           [], None),
          [Assign ''stripe.Key'' ''pk_test'',
           Call (PaymentIntentNew ''pk_test'' \<lparr>Params_Amount = 999, Params_Currency = ''eur''\<rparr>)])
   \<and> Charge (cards world_card_declined) card0 ''eur'' 999
       = ((None, ''Your card was declined'', Some (StripeError ''card_declined'' ''declined'')),
          [Assign ''stripe.Key'' ''pk_test'',
           Call (PaymentIntentNew ''pk_test'' \<lparr>Params_Amount = 999, Params_Currency = ''eur''\<rparr>)])"
proof -
  have ok: "Charge cards_ok card0 ''eur'' 999
       = ((Some \<lparr>PaymentIntent_ID = ''pi_1'', PaymentIntent_LatestCharge = Some \<lparr>Charge_ID = ''ch_1''\<rparr>\<rparr>,
           [], None),
          [Assign ''stripe.Key'' ''pk_test'',
           Call (PaymentIntentNew ''pk_test'' \<lparr>Params_Amount = 999, Params_Currency = ''eur''\<rparr>)])"
    by (simp add: Charge_def CreatePaymentIntent_def cards_ok_def card0_def)
  have declined: "Charge (cards world_card_declined) card0 ''eur'' 999
       = ((None, ''Your card was declined'', Some (StripeError ''card_declined'' ''declined'')),
          [Assign ''stripe.Key'' ''pk_test'',
           Call (PaymentIntentNew ''pk_test'' \<lparr>Params_Amount = 999, Params_Currency = ''eur''\<rparr>)])"
    by (simp add: Charge_def CreatePaymentIntent_def world_card_declined_def world_ok_def cards_ok_def
          card0_def cardErrorMessage_def ErrorCodeCardDeclined_def)
  show ?thesis
    using package_variable_assignments [of world_ok app0 "ReqGetPaymentIntent (Inr payload0)" cards_ok card0 "''eur''" 999]
      package_variable_assignments [of world_ok app0 "ReqCreateCustomerAndSubscribeToPlan (Inr payload0)" cards_ok card0 "''eur''" 999]
      ok declined
    by (simp add: run_intent_ok)
qed

text \<open>
  C2. Every error of the database or of the payment provider is to be logged and answered
  with a JSON error response. Two runs in which it is not: the payment provider accepts the
  customer and the subscription and the insertion of the customer fails, and the handler
  logs the error and writes no response at all; a card is declined in
  \<open>GetPaymentIntent\<close>, and the response with \<open>ok = false\<close> is written while nothing
  is logged.
\<close>

theorem subscription_db_error_unanswered:
  "responses (CreateCustomerAndSubscribeToPlan world_customer_insert_fails app0 (Inr payload0)) = []
   \<and> logged (CreateCustomerAndSubscribeToPlan world_customer_insert_fails app0 (Inr payload0))
       = [''connection refused'']
   \<and> failure world_customer_insert_fails (InsertCustomer (sub_customer payload0))
       = Some ''connection refused''
   \<and> logged (GetPaymentIntent world_card_declined app0 (Inr payload0)) = []
   \<and> map kind_of (responses (GetPaymentIntent world_card_declined app0 (Inr payload0))) = [DirectNotOK]"
proof -
  have failed: "failure world_customer_insert_fails (InsertCustomer (sub_customer payload0))
                  = Some ''connection refused''"
    by (simp add: world_defs)
  show ?thesis
    using failed by (simp add: run_customer_fails run_intent_declined)
qed

end
